theory Spec2Isabelle
  imports Complex_Main
begin

section \<open>Data model (app/models/models.py)\<close>

text \<open>
  A \<open>DateTime\<close> column is modelled as an integer day number: every caller truncates its
  date to midnight before it reaches the services, and \<open>timedelta(days=n)\<close> is \<open>n\<close>.
  A \<open>Float\<close> column holds the real number its double represents, an \<open>Integer\<close>
  column an \<open>int\<close>; the arithmetic on them is exact, except where a function takes the
  arithmetic as a parameter (\<open>compute_fatigue_float\<close>). The columns the services test against \<open>None\<close> (\<open>cpm\<close>, \<open>cpc\<close>, \<open>ctr\<close>,
  \<open>tracking_quality_score\<close>) are options; the others are filled with a number by
  \<open>SnapshotService\<close> at creation.
\<close>

type_synonym datetime = int

record AdAccountSnapshot =
  snapshot_date :: datetime
  ad_account_id :: string
  spend :: real
  impressions :: int
  clicks :: int
  reach :: int
  frequency :: real
  cpm :: "real option"
  cpc :: "real option"
  ctr :: "real option"

record EventsManagerHealth =
  eh_snapshot_date :: datetime
  events_received :: int
  events_dropped :: int
  events_duplicate :: int
  events_matched :: int
  tracking_quality_score :: "real option"

text \<open>
  \<open>DiagnosticResult\<close>. The \<open>explanation\<close> column is a rendering of the numeric fields
  below through Python's format specifications and is not modelled; the
  \<open>recommendation\<close> text, which branches on the severity, is.
\<close>

record DiagnosticResult =
  dr_snapshot_date :: datetime
  diagnostic_type :: string
  metric_name :: string
  current_value :: real
  previous_value :: "real option"
  change_percentage :: "real option"
  severity :: string
  confidence :: real
  recommendation :: string
  diagnostic_metadata :: "(string \<times> real) list"

text \<open>The exceptions the services can meet; the last two come from the collaborators.\<close>

datatype py_error =
    ZeroDivisionError
  | TypeError
  | ValueError
  | AttributeError
  | JSONDecodeError string
  | CollaboratorError string

text \<open>
  Python values as they occur in dictionaries and in JSON columns. \<open>PDate d\<close> stands for
  the text \<open>d.isoformat()\<close>, \<open>PErr e\<close> for the text \<open>str(e)\<close> of an exception.
\<close>

datatype pyval =
    PNone
  | PNum real
  | PStr string
  | PDate datetime
  | PErr py_error
  | PList "pyval list"
  | PDict "(string \<times> pyval) list"

record DailyOverview =
  overview_date :: datetime
  summary :: pyval
  key_changes :: pyval
  insights :: pyval
  recommendations :: pyval

text \<open>One dictionary of \<open>MetaAPIClient.get_campaign_insights\<close>, with the key the engine reads.\<close>

record campaign =
  campaign_id :: string
  campaign_spend :: real

text \<open>
  The database session: one list of rows per table, in insertion order. \<open>llm_log\<close> is
  not a table: it records each invocation of the language-model collaborator, with the
  target date and the context it was given.
\<close>

record db =
  snapshots :: "AdAccountSnapshot list"
  events_health :: "EventsManagerHealth list"
  diagnostic_results :: "DiagnosticResult list"
  daily_overviews :: "DailyOverview list"
  llm_log :: "(datetime \<times> pyval) list"

text \<open>
  The collaborators outside the repository: the ad platform client (\<open>Inl\<close> when
  constructing the client raises), the chat completion service applied to the two things
  the prompt varies in (target date and context), and the \<open>json\<close> module.
\<close>

record env =
  get_campaign_insights :: "datetime \<Rightarrow> datetime \<Rightarrow> py_error + campaign list"
  chat_completion :: "datetime \<Rightarrow> pyval \<Rightarrow> py_error + string"
  json_loads :: "string \<Rightarrow> py_error + pyval"
  json_dumps :: "pyval \<Rightarrow> string"

section \<open>Exceptions and queries\<close>

definition bind_err :: "py_error + 'a \<Rightarrow> ('a \<Rightarrow> py_error + 'b) \<Rightarrow> py_error + 'b" where
  "bind_err m f = (case m of Inl e \<Rightarrow> Inl e | Inr v \<Rightarrow> f v)"

text \<open>Python's true division: raises on a zero divisor.\<close>

definition py_div :: "real \<Rightarrow> real \<Rightarrow> py_error + real" where
  "py_div a b = (if b = 0 then Inl ZeroDivisionError else Inr (a / b))"

text \<open>Python's \<open>max\<close> of a list: raises on the empty list.\<close>

fun py_max :: "real list \<Rightarrow> py_error + real" where
  "py_max [] = Inl ValueError"
| "py_max (x # xs) = Inr (fold max xs x)"

text \<open>\<open>Query.first()\<close>: the first row, or \<open>None\<close>.\<close>

fun first :: "'a list \<Rightarrow> 'a option" where
  "first [] = None"
| "first (x # xs) = Some x"

text \<open>\<open>order_by(col.desc())\<close> on a date column.\<close>

definition order_by_desc :: "('a \<Rightarrow> datetime) \<Rightarrow> 'a list \<Rightarrow> 'a list" where
  "order_by_desc col rows = sort_key (\<lambda>r. - col r) rows"

text \<open>
  The trailing window of the three snapshot-based categories: same account, date in
  \<open>[current - 7d, current)\<close>, most recent first, at most 7 rows.
\<close>

definition trailing_snapshots :: "db \<Rightarrow> AdAccountSnapshot \<Rightarrow> AdAccountSnapshot list" where
  "trailing_snapshots d current_snapshot =
     (let date_7d_ago = snapshot_date current_snapshot - 7 in
      take 7 (order_by_desc snapshot_date
        (filter (\<lambda>s. ad_account_id s = ad_account_id current_snapshot \<and>
                      snapshot_date s \<ge> date_7d_ago \<and>
                      snapshot_date s < snapshot_date current_snapshot)
                (snapshots d))))"

text \<open>\<open>numpy.std\<close>: the population standard deviation.\<close>

definition np_std :: "real list \<Rightarrow> real" where
  "np_std xs =
     (let m = sum_list xs / real (length xs) in
      sqrt (sum_list (map (\<lambda>x. (x - m)\<^sup>2) xs) / real (length xs)))"

section \<open>The diagnostic engine (app/services/analytics.py)\<close>

text \<open>
  Every category is a \<open>try\<close> body, which may raise, under an \<open>except Exception\<close> that
  returns \<open>None\<close>. The body is the function \<open>..._body\<close>; the category is the body with
  every exception turned into \<open>None\<close>.
\<close>

definition except_none :: "py_error + 'a option \<Rightarrow> 'a option" where
  "except_none r = (case r of Inl e \<Rightarrow> None | Inr v \<Rightarrow> v)"

definition compute_fatigue_body :: "db \<Rightarrow> AdAccountSnapshot \<Rightarrow> py_error + DiagnosticResult option" where
  "compute_fatigue_body d current_snapshot =
     (let snapshots_7d = trailing_snapshots d current_snapshot in
      if length snapshots_7d < 3 then Inr None
      else
        let recent_frequency = frequency current_snapshot in
        bind_err (py_div (sum_list (map frequency snapshots_7d)) (real (length snapshots_7d)))
          (\<lambda>avg_frequency_7d.
            if avg_frequency_7d = 0 then Inr None
            else
              bind_err (py_div (recent_frequency - avg_frequency_7d) avg_frequency_7d)
                (\<lambda>q.
                  let frequency_increase = q * 100;
                      severity = (if frequency_increase > 30 then ''high''
                                  else if frequency_increase > 15 then ''medium''
                                  else ''low'');
                      confidence = min 0.95 (0.6 + real (length snapshots_7d) / 10);
                      recommendation =
                        (if severity = ''high''
                         then ''High ad fatigue detected. Urgent action recommended: refresh creatives, expand audiences, or reduce frequency caps.''
                         else ''Consider refreshing creative assets or adjusting audience targeting to reduce ad fatigue.'')
                  in Inr (Some \<lparr>
                       dr_snapshot_date = snapshot_date current_snapshot,
                       diagnostic_type = ''fatigue'',
                       metric_name = ''frequency'',
                       current_value = recent_frequency,
                       previous_value = Some avg_frequency_7d,
                       change_percentage = Some frequency_increase,
                       severity = severity,
                       confidence = confidence,
                       recommendation = recommendation,
                       diagnostic_metadata =
                         [(''snapshots_analyzed'', real (length snapshots_7d))] \<rparr>))))"

definition compute_fatigue :: "db \<Rightarrow> AdAccountSnapshot \<Rightarrow> DiagnosticResult option" where
  "compute_fatigue d current_snapshot = except_none (compute_fatigue_body d current_snapshot)"

text \<open>
  The same body with the arithmetic of Python's \<open>float\<close> as a parameter: what \<open>sum\<close>,
  \<open>+\<close>, \<open>-\<close>, \<open>*\<close> and \<open>/\<close> return on doubles, and the double that a decimal literal
  denotes. A double is the real number it represents (infinities and NaN are left out);
  comparisons of doubles are exact. \<open>exact_arith\<close> is the arithmetic without rounding.
\<close>

record arith =
  fl_sum :: "real list \<Rightarrow> real"
  fl_add :: "real \<Rightarrow> real \<Rightarrow> real"
  fl_sub :: "real \<Rightarrow> real \<Rightarrow> real"
  fl_mul :: "real \<Rightarrow> real \<Rightarrow> real"
  fl_div :: "real \<Rightarrow> real \<Rightarrow> real"
  fl_lit :: "real \<Rightarrow> real"

definition exact_arith :: arith where
  "exact_arith = \<lparr> fl_sum = sum_list, fl_add = (+), fl_sub = (-), fl_mul = (*),
                    fl_div = (/), fl_lit = (\<lambda>x. x) \<rparr>"

definition py_div_float :: "arith \<Rightarrow> real \<Rightarrow> real \<Rightarrow> py_error + real" where
  "py_div_float a x y = (if y = 0 then Inl ZeroDivisionError else Inr (fl_div a x y))"

definition compute_fatigue_float_body ::
    "arith \<Rightarrow> db \<Rightarrow> AdAccountSnapshot \<Rightarrow> py_error + DiagnosticResult option" where
  "compute_fatigue_float_body a d current_snapshot =
     (let snapshots_7d = trailing_snapshots d current_snapshot in
      if length snapshots_7d < 3 then Inr None
      else
        let recent_frequency = frequency current_snapshot in
        bind_err (py_div_float a (fl_sum a (map frequency snapshots_7d))
                                 (real (length snapshots_7d)))
          (\<lambda>avg_frequency_7d.
            if avg_frequency_7d = 0 then Inr None
            else
              bind_err (py_div_float a (fl_sub a recent_frequency avg_frequency_7d)
                                       avg_frequency_7d)
                (\<lambda>q.
                  let frequency_increase = fl_mul a q 100;
                      severity = (if frequency_increase > 30 then ''high''
                                  else if frequency_increase > 15 then ''medium''
                                  else ''low'');
                      confidence =
                        min (fl_lit a 0.95)
                            (fl_add a (fl_lit a 0.6) (fl_div a (real (length snapshots_7d)) 10));
                      recommendation =
                        (if severity = ''high''
                         then ''High ad fatigue detected. Urgent action recommended: refresh creatives, expand audiences, or reduce frequency caps.''
                         else ''Consider refreshing creative assets or adjusting audience targeting to reduce ad fatigue.'')
                  in Inr (Some \<lparr>
                       dr_snapshot_date = snapshot_date current_snapshot,
                       diagnostic_type = ''fatigue'',
                       metric_name = ''frequency'',
                       current_value = recent_frequency,
                       previous_value = Some avg_frequency_7d,
                       change_percentage = Some frequency_increase,
                       severity = severity,
                       confidence = confidence,
                       recommendation = recommendation,
                       diagnostic_metadata =
                         [(''snapshots_analyzed'', real (length snapshots_7d))] \<rparr>))))"

definition compute_fatigue_float ::
    "arith \<Rightarrow> db \<Rightarrow> AdAccountSnapshot \<Rightarrow> DiagnosticResult option" where
  "compute_fatigue_float a d current_snapshot =
     except_none (compute_fatigue_float_body a d current_snapshot)"

definition compute_saturation_body :: "db \<Rightarrow> AdAccountSnapshot \<Rightarrow> py_error + DiagnosticResult option" where
  "compute_saturation_body d current_snapshot =
     (let snapshots_7d = trailing_snapshots d current_snapshot in
      if length snapshots_7d < 3 then Inr None
      else
        let recent_reach = real_of_int (reach current_snapshot);
            recent_spend = spend current_snapshot in
        bind_err (py_div (real_of_int (sum_list (map reach snapshots_7d))) (real (length snapshots_7d)))
          (\<lambda>avg_reach_7d.
        bind_err (py_div (sum_list (map spend snapshots_7d)) (real (length snapshots_7d)))
          (\<lambda>avg_spend_7d.
            if avg_reach_7d = 0 \<or> avg_spend_7d = 0 then Inr None
            else
        bind_err (py_div (recent_reach - avg_reach_7d) avg_reach_7d)
          (\<lambda>rq.
        bind_err (py_div (recent_spend - avg_spend_7d) avg_spend_7d)
          (\<lambda>sq.
        bind_err (if recent_spend > 0 then py_div recent_reach recent_spend else Inr 0)
          (\<lambda>reach_per_dollar.
        bind_err (if avg_spend_7d > 0 then py_div avg_reach_7d avg_spend_7d else Inr 0)
          (\<lambda>avg_reach_per_dollar.
        bind_err (if avg_reach_per_dollar > 0
                  then bind_err (py_div (reach_per_dollar - avg_reach_per_dollar) avg_reach_per_dollar)
                         (\<lambda>eq. Inr (eq * 100))
                  else Inr 0)
          (\<lambda>efficiency_decline.
            let reach_change = rq * 100;
                spend_change = sq * 100;
                severity = (if efficiency_decline < - 20 then ''high''
                            else if efficiency_decline < - 10 then ''medium''
                            else ''low'');
                confidence = min 0.95 (0.65 + real (length snapshots_7d) / 10);
                recommendation =
                  (if severity = ''high''
                   then ''High saturation detected. Consider significant audience expansion, new creative angles, or exploring new markets/placements.''
                   else ''Market may be reaching saturation. Consider testing new audiences, expanding to new placements, or adjusting bid strategies.'')
            in Inr (Some \<lparr>
                 dr_snapshot_date = snapshot_date current_snapshot,
                 diagnostic_type = ''saturation'',
                 metric_name = ''reach_efficiency'',
                 current_value = reach_per_dollar,
                 previous_value = Some avg_reach_per_dollar,
                 change_percentage = Some efficiency_decline,
                 severity = severity,
                 confidence = confidence,
                 recommendation = recommendation,
                 diagnostic_metadata =
                   [(''reach_change'', reach_change),
                    (''spend_change'', spend_change),
                    (''snapshots_analyzed'', real (length snapshots_7d))] \<rparr>)))))))))"

definition compute_saturation :: "db \<Rightarrow> AdAccountSnapshot \<Rightarrow> DiagnosticResult option" where
  "compute_saturation d current_snapshot = except_none (compute_saturation_body d current_snapshot)"

definition compute_delivery_concentration_body ::
    "env \<Rightarrow> AdAccountSnapshot \<Rightarrow> py_error + DiagnosticResult option" where
  "compute_delivery_concentration_body e current_snapshot =
     (let date_start = snapshot_date current_snapshot - 1;
          date_end = snapshot_date current_snapshot in
      bind_err (get_campaign_insights e date_start date_end)
        (\<lambda>campaigns.
          if length campaigns < 2 then Inr None
          else
            let total_spend = sum_list (map campaign_spend campaigns) in
            if total_spend = 0 then Inr None
            else
      bind_err (fold (\<lambda>c acc. bind_err acc (\<lambda>shares.
                         bind_err (py_div (campaign_spend c) total_spend)
                           (\<lambda>share. Inr (shares @ [share]))))
                     campaigns (Inr []))
        (\<lambda>spend_shares.
          let herfindahl_index = sum_list (map (\<lambda>share. share\<^sup>2) spend_shares) in
      bind_err (py_max spend_shares)
        (\<lambda>concentration_ratio.
          let severity = (if concentration_ratio > 0.7 \<or> herfindahl_index > 0.5 then ''high''
                          else if concentration_ratio > 0.5 \<or> herfindahl_index > 0.3 then ''medium''
                          else ''low'');
              confidence = 0.8;
              recommendation =
                (if severity = ''low''
                 then ''Delivery is well-distributed across campaigns.''
                 else ''High delivery concentration detected. Consider diversifying spend across more campaigns to reduce risk.'')
          in Inr (Some \<lparr>
               dr_snapshot_date = snapshot_date current_snapshot,
               diagnostic_type = ''delivery_concentration'',
               metric_name = ''concentration_ratio'',
               current_value = concentration_ratio,
               previous_value = None,
               change_percentage = None,
               severity = severity,
               confidence = confidence,
               recommendation = recommendation,
               diagnostic_metadata =
                 [(''herfindahl_index'', herfindahl_index),
                  (''total_campaigns'', real (length campaigns)),
                  (''top_campaign_spend_share'', concentration_ratio)] \<rparr>)))))"

definition compute_delivery_concentration ::
    "env \<Rightarrow> AdAccountSnapshot \<Rightarrow> DiagnosticResult option" where
  "compute_delivery_concentration e current_snapshot =
     except_none (compute_delivery_concentration_body e current_snapshot)"

definition compute_auction_shifts_body :: "db \<Rightarrow> AdAccountSnapshot \<Rightarrow> py_error + DiagnosticResult option" where
  "compute_auction_shifts_body d current_snapshot =
     (let snapshots_7d = trailing_snapshots d current_snapshot in
      if length snapshots_7d < 3 then Inr None
      else
        case cpm current_snapshot of
          None \<Rightarrow> Inr None
        | Some recent_cpm \<Rightarrow>
            let cpm_values = List.map_filter cpm snapshots_7d in
            if length cpm_values < 2 then Inr None
            else
        bind_err (py_div (sum_list cpm_values) (real (length cpm_values)))
          (\<lambda>avg_cpm_7d.
        bind_err (if avg_cpm_7d > 0
                  then bind_err (py_div (recent_cpm - avg_cpm_7d) avg_cpm_7d) (\<lambda>q. Inr (q * 100))
                  else Inr 0)
          (\<lambda>cpm_change.
            let cpm_std = (if length cpm_values > 1 then np_std cpm_values else 0) in
        bind_err (if avg_cpm_7d > 0
                  then bind_err (py_div cpm_std avg_cpm_7d) (\<lambda>q. Inr (q * 100))
                  else Inr 0)
          (\<lambda>cpm_volatility.
            let severity = (if \<bar>cpm_change\<bar> > 25 \<or> cpm_volatility > 20 then ''high''
                            else if \<bar>cpm_change\<bar> > 15 \<or> cpm_volatility > 15 then ''medium''
                            else ''low'');
                confidence = min 0.95 (0.7 + real (length cpm_values) / 10);
                recommendation =
                  (if severity = ''low''
                   then ''Auction dynamics are relatively stable.''
                   else ''Significant auction shifts detected. Monitor competitive landscape and consider bid adjustments.'')
            in Inr (Some \<lparr>
                 dr_snapshot_date = snapshot_date current_snapshot,
                 diagnostic_type = ''auction_shifts'',
                 metric_name = ''cpm'',
                 current_value = recent_cpm,
                 previous_value = Some avg_cpm_7d,
                 change_percentage = Some cpm_change,
                 severity = severity,
                 confidence = confidence,
                 recommendation = recommendation,
                 diagnostic_metadata =
                   [(''cpm_volatility'', cpm_volatility),
                    (''snapshots_analyzed'', real (length cpm_values))] \<rparr>)))))"

definition compute_auction_shifts :: "db \<Rightarrow> AdAccountSnapshot \<Rightarrow> DiagnosticResult option" where
  "compute_auction_shifts d current_snapshot =
     except_none (compute_auction_shifts_body d current_snapshot)"

definition compute_tracking_degradation_body ::
    "db \<Rightarrow> AdAccountSnapshot \<Rightarrow> py_error + DiagnosticResult option" where
  "compute_tracking_degradation_body d current_snapshot =
     (let date_7d_ago = snapshot_date current_snapshot - 7 in
      case first (filter (\<lambda>h. eh_snapshot_date h \<ge> snapshot_date current_snapshot - 1 \<and>
                                eh_snapshot_date h \<le> snapshot_date current_snapshot)
                         (events_health d)) of
        None \<Rightarrow> Inr None
      | Some recent_health \<Rightarrow>
          let historical_health =
                take 7 (order_by_desc eh_snapshot_date
                  (filter (\<lambda>h. eh_snapshot_date h \<ge> date_7d_ago \<and>
                                eh_snapshot_date h < snapshot_date current_snapshot)
                          (events_health d))) in
          if length historical_health < 2 then Inr None
          else
           (case tracking_quality_score recent_health of
              None \<Rightarrow> Inr None
            | Some recent_score \<Rightarrow>
                let scores = List.map_filter tracking_quality_score historical_health in
                if scores = [] then Inr None
                else
          bind_err (py_div (sum_list scores) (real (length scores)))
            (\<lambda>avg_score.
              let score_decline = avg_score - recent_score;
                  severity = (if score_decline > 0.15 then ''high''
                              else if score_decline > 0.08 then ''medium''
                              else ''low'');
                  confidence = 0.85;
                  recommendation =
                    (if severity = ''high''
                     then ''Significant tracking degradation. Urgent review of tracking setup required. Check pixel health, iOS attribution, and server-side tracking.''
                     else ''Tracking degradation detected. Review Events Manager setup, check for iOS 14.5+ impacts, verify pixel implementation.'')
              in Inr (Some \<lparr>
                   dr_snapshot_date = snapshot_date current_snapshot,
                   diagnostic_type = ''tracking_degradation'',
                   metric_name = ''tracking_quality_score'',
                   current_value = recent_score,
                   previous_value = Some avg_score,
                   change_percentage = Some (- score_decline * 100),
                   severity = severity,
                   confidence = confidence,
                   recommendation = recommendation,
                   diagnostic_metadata =
                     [(''events_received'', real_of_int (events_received recent_health)),
                      (''events_dropped'', real_of_int (events_dropped recent_health)),
                      (''snapshots_analyzed'', real (length historical_health))] \<rparr>))))"

definition compute_tracking_degradation :: "db \<Rightarrow> AdAccountSnapshot \<Rightarrow> DiagnosticResult option" where
  "compute_tracking_degradation d current_snapshot =
     except_none (compute_tracking_degradation_body d current_snapshot)"

text \<open>\<open>if x: diagnostics.append(x)\<close>: a row object is always true, \<open>None\<close> never.\<close>

definition append_if :: "'a list \<Rightarrow> 'a option \<Rightarrow> 'a list" where
  "append_if diagnostics r = (case r of None \<Rightarrow> diagnostics | Some x \<Rightarrow> diagnostics @ [x])"

definition compute_all_diagnostics :: "env \<Rightarrow> db \<Rightarrow> AdAccountSnapshot \<Rightarrow> DiagnosticResult list" where
  "compute_all_diagnostics e d snapshot =
     (let diagnostics = [];
          fatigue = compute_fatigue d snapshot;
          diagnostics = append_if diagnostics fatigue;
          saturation = compute_saturation d snapshot;
          diagnostics = append_if diagnostics saturation;
          concentration = compute_delivery_concentration e snapshot;
          diagnostics = append_if diagnostics concentration;
          auction_shifts = compute_auction_shifts d snapshot;
          diagnostics = append_if diagnostics auction_shifts;
          tracking = compute_tracking_degradation d snapshot;
          diagnostics = append_if diagnostics tracking
      in diagnostics)"

section \<open>Context assembly and the daily overview (app/services/ai_analyst.py)\<close>

definition opt_num :: "real option \<Rightarrow> pyval" where
  "opt_num v = (case v of None \<Rightarrow> PNone | Some x \<Rightarrow> PNum x)"

text \<open>The dictionary built from a snapshot row, the same at its three places in the source.\<close>

definition snapshot_dict :: "AdAccountSnapshot \<Rightarrow> pyval" where
  "snapshot_dict s = PDict
     [(''date'', PDate (snapshot_date s)),
      (''spend'', PNum (spend s)),
      (''impressions'', PNum (real_of_int (impressions s))),
      (''clicks'', PNum (real_of_int (clicks s))),
      (''reach'', PNum (real_of_int (reach s))),
      (''frequency'', PNum (frequency s)),
      (''cpm'', opt_num (cpm s)),
      (''cpc'', opt_num (cpc s)),
      (''ctr'', opt_num (ctr s))]"

text \<open>The public shape of a diagnostic row (without the unmodelled \<open>explanation\<close>).\<close>

definition diagnostic_dict :: "DiagnosticResult \<Rightarrow> pyval" where
  "diagnostic_dict diag = PDict
     [(''type'', PStr (diagnostic_type diag)),
      (''metric'', PStr (metric_name diag)),
      (''severity'', PStr (severity diag)),
      (''confidence'', PNum (confidence diag)),
      (''recommendation'', PStr (recommendation diag)),
      (''change_percentage'', opt_num (change_percentage diag))]"

definition events_health_dict :: "EventsManagerHealth \<Rightarrow> pyval" where
  "events_health_dict h = PDict
     [(''tracking_quality_score'', opt_num (tracking_quality_score h)),
      (''events_received'', PNum (real_of_int (events_received h))),
      (''events_dropped'', PNum (real_of_int (events_dropped h))),
      (''events_matched'', PNum (real_of_int (events_matched h)))]"

text \<open>
  The anchor snapshot: the first row on the target date, else the most recent row at or
  before it. The source runs these two queries in \<open>get_context_for_date\<close> and again in
  \<open>generate_daily_overview\<close>.
\<close>

definition anchor_snapshot :: "db \<Rightarrow> datetime \<Rightarrow> AdAccountSnapshot option" where
  "anchor_snapshot d target_date =
     (case first (filter (\<lambda>s. snapshot_date s = target_date) (snapshots d)) of
        Some snapshot \<Rightarrow> Some snapshot
      | None \<Rightarrow>
          first (order_by_desc snapshot_date
                   (filter (\<lambda>s. snapshot_date s \<le> target_date) (snapshots d))))"

definition previous_snapshot_of :: "db \<Rightarrow> AdAccountSnapshot \<Rightarrow> AdAccountSnapshot option" where
  "previous_snapshot_of d snapshot =
     first (order_by_desc snapshot_date
              (filter (\<lambda>s. ad_account_id s = ad_account_id snapshot \<and>
                            snapshot_date s < snapshot_date snapshot)
                      (snapshots d)))"

text \<open>
  The dictionary literal assigned to \<open>context['changes']\<close>, evaluated when the previous
  spend is positive. Subtracting from a missing current \<open>cpm\<close> raises \<open>TypeError\<close>.
\<close>

definition changes_dict :: "AdAccountSnapshot \<Rightarrow> AdAccountSnapshot \<Rightarrow> py_error + pyval" where
  "changes_dict snapshot previous_snapshot =
     bind_err (py_div (spend snapshot - spend previous_snapshot) (spend previous_snapshot))
       (\<lambda>sq.
     bind_err (if impressions previous_snapshot > 0
               then bind_err (py_div (real_of_int (impressions snapshot - impressions previous_snapshot))
                                     (real_of_int (impressions previous_snapshot)))
                      (\<lambda>q. Inr (PNum (q * 100)))
               else Inr (PNum 0))
       (\<lambda>impressions_change.
     bind_err (if clicks previous_snapshot > 0
               then bind_err (py_div (real_of_int (clicks snapshot - clicks previous_snapshot))
                                     (real_of_int (clicks previous_snapshot)))
                      (\<lambda>q. Inr (PNum (q * 100)))
               else Inr (PNum 0))
       (\<lambda>clicks_change.
     bind_err (case cpm previous_snapshot of
                 None \<Rightarrow> Inr PNone
               | Some previous_cpm \<Rightarrow>
                   if previous_cpm \<noteq> 0 \<and> previous_cpm > 0
                   then (case cpm snapshot of
                           None \<Rightarrow> Inl TypeError
                         | Some current_cpm \<Rightarrow>
                             bind_err (py_div (current_cpm - previous_cpm) previous_cpm)
                               (\<lambda>q. Inr (PNum (q * 100))))
                   else Inr PNone)
       (\<lambda>cpm_change.
          Inr (PDict [(''spend_change'', PNum (sq * 100)),
                      (''impressions_change'', impressions_change),
                      (''clicks_change'', clicks_change),
                      (''cpm_change'', cpm_change)])))))"

definition get_context_for_date :: "db \<Rightarrow> datetime \<Rightarrow> py_error + pyval" where
  "get_context_for_date d target_date =
     (case anchor_snapshot d target_date of
        None \<Rightarrow> Inr (PDict [])
      | Some snapshot \<Rightarrow>
          let historical_snapshots =
                order_by_desc snapshot_date
                  (filter (\<lambda>s. ad_account_id s = ad_account_id snapshot \<and>
                                snapshot_date s \<le> target_date)
                          (snapshots d));
              previous_snapshot = previous_snapshot_of d snapshot;
              diagnostics = filter (\<lambda>r. dr_snapshot_date r = snapshot_date snapshot)
                                   (diagnostic_results d);
              health = first (filter (\<lambda>h. eh_snapshot_date h = snapshot_date snapshot)
                                     (events_health d))
          in
          bind_err (case previous_snapshot of
                      None \<Rightarrow> Inr (PNone, PDict [])
                    | Some p \<Rightarrow>
                        if spend p > 0
                        then bind_err (changes_dict snapshot p) (\<lambda>c. Inr (snapshot_dict p, c))
                        else Inr (snapshot_dict p, PDict []))
            (\<lambda>(previous, changes).
               Inr (PDict
                 [(''current_snapshot'', snapshot_dict snapshot),
                  (''previous_snapshot'', previous),
                  (''changes'', changes),
                  (''historical_data'', PList (map snapshot_dict historical_snapshots)),
                  (''diagnostics'', PList (map diagnostic_dict diagnostics)),
                  (''events_health'',
                     (case health of None \<Rightarrow> PNone | Some h \<Rightarrow> events_health_dict h))])))"

text \<open>
  A \<open>str\<close> is modelled by the bytes of its UTF-8 encoding; the slices of the clean-up
  below only ever cut ASCII characters, whose count in bytes is their count in
  characters.
\<close>

definition startswith :: "string \<Rightarrow> string \<Rightarrow> bool" where
  "startswith s p = (take (length p) s = p)"

definition endswith :: "string \<Rightarrow> string \<Rightarrow> bool" where
  "endswith s p = (length p \<le> length s \<and> drop (length s - length p) s = p)"

text \<open>
  The encodings of the characters that \<open>str.strip()\<close> removes, those for which
  \<open>str.isspace\<close> holds: U+0009 to U+000D, U+001C to U+001F, U+0020, U+0085, U+00A0,
  U+1680, U+2000 to U+200A, U+2028, U+2029, U+202F, U+205F and U+3000.
\<close>

definition whitespace :: "string list" where
  "whitespace =
     [[CHR 0x09], [CHR 0x0A], [CHR 0x0B], [CHR 0x0C], [CHR 0x0D],
      [CHR 0x1C], [CHR 0x1D], [CHR 0x1E], [CHR 0x1F], [CHR 0x20],
      [CHR 0xC2, CHR 0x85], [CHR 0xC2, CHR 0xA0],
      [CHR 0xE1, CHR 0x9A, CHR 0x80],
      [CHR 0xE2, CHR 0x80, CHR 0x80], [CHR 0xE2, CHR 0x80, CHR 0x81],
      [CHR 0xE2, CHR 0x80, CHR 0x82], [CHR 0xE2, CHR 0x80, CHR 0x83],
      [CHR 0xE2, CHR 0x80, CHR 0x84], [CHR 0xE2, CHR 0x80, CHR 0x85],
      [CHR 0xE2, CHR 0x80, CHR 0x86], [CHR 0xE2, CHR 0x80, CHR 0x87],
      [CHR 0xE2, CHR 0x80, CHR 0x88], [CHR 0xE2, CHR 0x80, CHR 0x89],
      [CHR 0xE2, CHR 0x80, CHR 0x8A],
      [CHR 0xE2, CHR 0x80, CHR 0xA8], [CHR 0xE2, CHR 0x80, CHR 0xA9],
      [CHR 0xE2, CHR 0x80, CHR 0xAF], [CHR 0xE2, CHR 0x81, CHR 0x9F],
      [CHR 0xE3, CHR 0x80, CHR 0x80]]"

text \<open>The length of the encoding in \<open>ws\<close> that \<open>s\<close> starts with, 0 when there is none.\<close>

definition leading_space :: "string list \<Rightarrow> string \<Rightarrow> nat" where
  "leading_space ws s =
     (case find (\<lambda>w. w \<noteq> [] \<and> startswith s w) ws of None \<Rightarrow> 0 | Some w \<Rightarrow> length w)"

function lstrip_by :: "string list \<Rightarrow> string \<Rightarrow> string" where
  "lstrip_by ws s =
     (if leading_space ws s = 0 then s else lstrip_by ws (drop (leading_space ws s) s))"
  by pat_completeness auto
termination
proof (relation "measure (\<lambda>(ws, s). length s)")
  show "wf (measure (\<lambda>(ws, s). length s))" by simp
next
  fix ws :: "string list" and s :: string
  assume "leading_space ws s \<noteq> 0"
  then obtain w where "w \<noteq> []" and "startswith s w"
    by (auto simp add: leading_space_def find_Some_iff split: option.splits)
  then have "s \<noteq> []"
    by (auto simp add: startswith_def)
  with \<open>leading_space ws s \<noteq> 0\<close>
  show "((ws, drop (leading_space ws s) s), (ws, s)) \<in> measure (\<lambda>(ws, s). length s)"
    by simp
qed

declare lstrip_by.simps [simp del]

text \<open>\<open>str.strip()\<close>: whitespace is removed at the front, then at the back.\<close>

definition strip :: "string \<Rightarrow> string" where
  "strip s = rev (lstrip_by (map rev whitespace) (rev (lstrip_by whitespace s)))"

text \<open>The clean-up of the completion text before \<open>json.loads\<close>.\<close>

definition clean_json_response :: "string \<Rightarrow> string" where
  "clean_json_response text =
     (let content = strip text;
          content = (if startswith content ''```json'' then drop 7 content else content);
          content = (if startswith content ''```'' then drop 3 content else content);
          content = (if endswith content ''```'' then take (length content - 3) content else content)
      in strip content)"

text \<open>\<open>overview_data.get(key, default)\<close>: only a dictionary has \<open>get\<close>.\<close>

definition dict_get :: "pyval \<Rightarrow> string \<Rightarrow> pyval \<Rightarrow> py_error + pyval" where
  "dict_get v k dflt =
     (case v of
        PDict kvs \<Rightarrow> Inr (case map_of kvs k of None \<Rightarrow> dflt | Some x \<Rightarrow> x)
      | _ \<Rightarrow> Inl AttributeError)"

text \<open>
  The body of the \<open>try\<close> up to the construction of the row: the completion, its clean-up,
  the parse, and the reads of the four keys. It returns the row to save and the
  dictionary to return.
\<close>

definition request_overview :: "env \<Rightarrow> datetime \<Rightarrow> pyval \<Rightarrow> py_error + (DailyOverview \<times> pyval)" where
  "request_overview e target_date context =
     bind_err (chat_completion e target_date context)
       (\<lambda>text.
     bind_err (json_loads e (clean_json_response text))
       (\<lambda>overview_data.
     bind_err (dict_get overview_data ''summary'' (PStr []))
       (\<lambda>summary_v.
     bind_err (dict_get overview_data ''key_changes'' (PList []))
       (\<lambda>key_changes_v.
     bind_err (dict_get overview_data ''insights'' (PList []))
       (\<lambda>insights_v.
     bind_err (dict_get overview_data ''recommendations'' (PList []))
       (\<lambda>recommendations_v.
          Inr (\<lparr> overview_date = target_date,
                 summary = summary_v,
                 key_changes = PStr (json_dumps e key_changes_v),
                 insights = PStr (json_dumps e insights_v),
                 recommendations = PStr (json_dumps e recommendations_v) \<rparr>,
               PDict [(''overview_date'', PDate target_date),
                      (''summary'', summary_v),
                      (''key_changes'', key_changes_v),
                      (''insights'', insights_v),
                      (''recommendations'', recommendations_v)])))))))"

text \<open>
  The \<open>try\<close>/\<open>except\<close> at the end of \<open>generate_daily_overview\<close>: the collaborator is
  invoked (and the call recorded in \<open>llm_log\<close>); on success the row is saved, on any
  exception the error dictionary is returned and nothing is saved. The commit of the row
  is taken to succeed.
\<close>

definition complete_overview :: "env \<Rightarrow> db \<Rightarrow> datetime \<Rightarrow> pyval \<Rightarrow> pyval \<times> db" where
  "complete_overview e d target_date context =
     (let d1 = d\<lparr>llm_log := llm_log d @ [(target_date, context)]\<rparr> in
      case request_overview e target_date context of
        Inr (overview, result) \<Rightarrow>
          (result, d1\<lparr>daily_overviews := daily_overviews d1 @ [overview]\<rparr>)
      | Inl err \<Rightarrow>
          (PDict [(''error'', PErr err), (''overview_date'', PDate target_date)], d1))"

text \<open>A JSON column read back: a stored string is parsed, anything else is returned as it is.\<close>

definition parse_field :: "env \<Rightarrow> pyval \<Rightarrow> py_error + pyval" where
  "parse_field e v = (case v of PStr s \<Rightarrow> json_loads e s | _ \<Rightarrow> Inr v)"

definition cached_overview :: "env \<Rightarrow> DailyOverview \<Rightarrow> py_error + pyval" where
  "cached_overview e existing =
     bind_err (parse_field e (key_changes existing))
       (\<lambda>key_changes_v.
     bind_err (parse_field e (insights existing))
       (\<lambda>insights_v.
     bind_err (parse_field e (recommendations existing))
       (\<lambda>recommendations_v.
          Inr (PDict [(''overview_date'', PDate (overview_date existing)),
                      (''summary'', summary existing),
                      (''key_changes'', key_changes_v),
                      (''insights'', insights_v),
                      (''recommendations'', recommendations_v)]))))"

definition existing_overview :: "db \<Rightarrow> datetime \<Rightarrow> DailyOverview option" where
  "existing_overview d target_date =
     first (filter (\<lambda>ov. overview_date ov = target_date) (daily_overviews d))"

text \<open>
  \<open>generate_daily_overview\<close>. The result is \<open>Inl\<close> where the source lets an exception
  escape (the reads outside the \<open>try\<close>), and the dictionary returned otherwise; the
  second component is the database afterwards.
\<close>

definition generate_daily_overview :: "env \<Rightarrow> db \<Rightarrow> datetime \<Rightarrow> (py_error + pyval) \<times> db" where
  "generate_daily_overview e d target_date =
     (case existing_overview d target_date of
        Some existing \<Rightarrow> (cached_overview e existing, d)
      | None \<Rightarrow>
         (case get_context_for_date d target_date of
            Inl err \<Rightarrow> (Inl err, d)
          | Inr context \<Rightarrow>
             (case anchor_snapshot d target_date of
                None \<Rightarrow>
                  (let (result, d') = complete_overview e d target_date context
                   in (Inr result, d'))
              | Some snapshot \<Rightarrow>
                  (let diagnostics = compute_all_diagnostics e d snapshot;
                       d1 = d\<lparr>diagnostic_results := diagnostic_results d @ diagnostics\<rparr>
                   in case get_context_for_date d1 target_date of
                        Inl err \<Rightarrow> (Inl err, d1)
                      | Inr context \<Rightarrow>
                          (let (result, d') = complete_overview e d1 target_date context
                           in (Inr result, d'))))))"

section \<open>Notions used in the statements\<close>

text \<open>\<open>context.get(key)\<close> on a returned bundle: \<open>None\<close> when the bundle has no such entry.\<close>

definition bundle_entry :: "py_error + pyval \<Rightarrow> string \<Rightarrow> pyval option" where
  "bundle_entry r k = (case r of Inr (PDict kvs) \<Rightarrow> map_of kvs k | _ \<Rightarrow> None)"

text \<open>\<open>d.get(key, default)\<close> on the items of a dictionary.\<close>

definition value_or :: "(string \<times> pyval) list \<Rightarrow> string \<Rightarrow> pyval \<Rightarrow> pyval" where
  "value_or kvs k dflt = (case map_of kvs k of None \<Rightarrow> dflt | Some x \<Rightarrow> x)"

text \<open>
  \<open>json.loads(json.dumps(v)) == v\<close> for the three list fields \<open>v\<close> of a returned
  overview dictionary.
\<close>

definition list_fields_round_trip :: "env \<Rightarrow> pyval \<Rightarrow> bool" where
  "list_fields_round_trip e r =
     list_all (\<lambda>k. case bundle_entry (Inr r) k of
                      None \<Rightarrow> True
                    | Some v \<Rightarrow> json_loads e (json_dumps e v) = Inr v)
              [''key_changes'', ''insights'', ''recommendations'']"

text \<open>
  The three operations that compute the percentage change of a current frequency \<open>c\<close>
  against an average \<open>F\<close> are each within the relative error \<open>u\<close> of the exact result,
  as the operations on doubles are for \<open>u = 2\<^sup>-\<^sup>5\<^sup>3\<close> unless a result overflows or
  underflows.
\<close>

definition change_accurate :: "real \<Rightarrow> arith \<Rightarrow> real \<Rightarrow> real \<Rightarrow> bool" where
  "change_accurate u a c F =
     (let r1 = fl_sub a c F; r2 = fl_div a r1 F in
      \<bar>r1 - (c - F)\<bar> \<le> u * \<bar>c - F\<bar> \<and>
      \<bar>r2 - r1 / F\<bar> \<le> u * \<bar>r1 / F\<bar> \<and>
      \<bar>fl_mul a r2 100 - r2 * 100\<bar> \<le> u * \<bar>r2 * 100\<bar>)"

section \<open>Example stores and collaborators\<close>

text \<open>Concrete rows, stores and collaborators on which the theorems below are instantiated.\<close>

definition example_snapshot :: "datetime \<Rightarrow> real \<Rightarrow> real \<Rightarrow> AdAccountSnapshot" where
  "example_snapshot day f sp =
     \<lparr> snapshot_date = day, ad_account_id = ''act_1'', spend = sp, impressions = 1000,
       clicks = 10, reach = 500, frequency = f, cpm = Some 5, cpc = None, ctr = None \<rparr>"

definition example_health :: "datetime \<Rightarrow> real \<Rightarrow> EventsManagerHealth" where
  "example_health day q =
     \<lparr> eh_snapshot_date = day, events_received = 100, events_dropped = 0,
       events_duplicate = 0, events_matched = 90, tracking_quality_score = Some q \<rparr>"

definition empty_db :: db where
  "empty_db = \<lparr> snapshots = [], events_health = [], diagnostic_results = [],
                daily_overviews = [], llm_log = [] \<rparr>"

definition history_db :: "nat \<Rightarrow> db" where
  "history_db n =
     \<lparr> snapshots = map (\<lambda>k. example_snapshot (int k) 10 100) [1..<Suc n],
       events_health = map (\<lambda>k. example_health (int k) 0.9) [1..<Suc (Suc n)],
       diagnostic_results = [], daily_overviews = [], llm_log = [] \<rparr>"

definition example_campaigns :: "campaign list" where
  "example_campaigns = [\<lparr> campaign_id = ''c1'', campaign_spend = 60 \<rparr>,
                        \<lparr> campaign_id = ''c2'', campaign_spend = 40 \<rparr>]"

definition example_loads :: "string \<Rightarrow> py_error + pyval" where
  "example_loads s = (if s = ''{}'' then Inr (PDict [])
                      else if s = ''[]'' then Inr (PList [])
                      else Inl (JSONDecodeError s))"

definition example_dumps :: "pyval \<Rightarrow> string" where
  "example_dumps v = (case v of PList [] \<Rightarrow> ''[]'' | _ \<Rightarrow> ''null'')"

definition example_env :: "(py_error + campaign list) \<Rightarrow> string \<Rightarrow> env" where
  "example_env cs reply =
     \<lparr> get_campaign_insights = (\<lambda>date_start date_end. cs),
       chat_completion = (\<lambda>target_date context. Inr reply),
       json_loads = example_loads,
       json_dumps = example_dumps \<rparr>"

definition example_diagnostic :: "datetime \<Rightarrow> DiagnosticResult" where
  "example_diagnostic day =
     \<lparr> dr_snapshot_date = day, diagnostic_type = ''fatigue'', metric_name = ''frequency'',
       current_value = 10, previous_value = Some 10, change_percentage = Some 0,
       severity = ''low'', confidence = 0.9,
       recommendation = ''Consider refreshing creative assets or adjusting audience targeting to reduce ad fatigue.'',
       diagnostic_metadata = [(''snapshots_analyzed'', 3)] \<rparr>"

text \<open>A store that already holds a diagnostic row for the date of its latest snapshot.\<close>

definition persisted_db :: db where
  "persisted_db = (history_db 4)\<lparr>diagnostic_results := [example_diagnostic 4]\<rparr>"

text \<open>A collaborator whose reply is a fenced JSON object, and one whose reply is no JSON.\<close>

definition ok_env :: env where
  "ok_env = example_env (Inr example_campaigns) ''```json{}```''"

definition bad_env :: env where
  "bad_env = example_env (Inr example_campaigns) ''not json''"

text \<open>The row and the dictionary that the reply of \<open>ok_env\<close> leads to on day 3.\<close>

definition example_overview :: DailyOverview where
  "example_overview =
     \<lparr> overview_date = 3, summary = PStr [], key_changes = PStr ''[]'',
       insights = PStr ''[]'', recommendations = PStr ''[]'' \<rparr>"

definition example_result :: pyval where
  "example_result =
     PDict [(''overview_date'', PDate 3), (''summary'', PStr []), (''key_changes'', PList []),
            (''insights'', PList []), (''recommendations'', PList [])]"

text \<open>
  Three days of history without spend on the current day and with a cpm of zero
  throughout.
\<close>

definition zero_snapshot :: "datetime \<Rightarrow> real \<Rightarrow> AdAccountSnapshot" where
  "zero_snapshot day sp = (example_snapshot day 10 sp)\<lparr>cpm := Some 0\<rparr>"

definition zero_db :: db where
  "zero_db = (history_db 3)\<lparr>snapshots := map (\<lambda>k. zero_snapshot (int k) 100) [1..<4]\<rparr>"

text \<open>An arithmetic that returns every difference, product and quotient 1/2000 too large.\<close>

definition skewed_arith :: arith where
  "skewed_arith =
     \<lparr> fl_sum = sum_list, fl_add = (+),
       fl_sub = (\<lambda>x y. (x - y) * (2001 / 2000)),
       fl_mul = (\<lambda>x y. x * y * (2001 / 2000)),
       fl_div = (\<lambda>x y. x / y * (2001 / 2000)),
       fl_lit = (\<lambda>x. x) \<rparr>"

text \<open>A store with a cached overview for day 3.\<close>

definition cached_db :: db where
  "cached_db = (history_db 3)\<lparr>daily_overviews := [example_overview]\<rparr>"

text \<open>
  A store on which context assembly raises: the snapshot of day 2 has no cpm, the one of
  day 1 has a positive spend and a positive cpm.
\<close>

definition raising_db :: db where
  "raising_db =
     empty_db\<lparr>snapshots := [example_snapshot 1 10 100,
                              (example_snapshot 2 10 100)\<lparr>cpm := None\<rparr>]\<rparr>"

section \<open>Properties of the diagnostic engine\<close>

lemmas cat_defs = except_none_def bind_err_def py_div_def Let_def
lemmas compute_defs = compute_fatigue_def compute_fatigue_body_def compute_saturation_def
  compute_saturation_body_def compute_delivery_concentration_def
  compute_delivery_concentration_body_def compute_auction_shifts_def
  compute_auction_shifts_body_def compute_tracking_degradation_def
  compute_tracking_degradation_body_def compute_all_diagnostics_def append_if_def np_std_def

lemmas ex_defs = example_env_def example_campaigns_def example_snapshot_def example_health_def history_db_def empty_db_def
  trailing_snapshots_def order_by_desc_def

lemma bind_err_simps:
  "bind_err (Inr v) f = f v"
  "bind_err (Inl err) f = Inl err"
  by (simp_all add: bind_err_def)

lemma fatigue_case:
  "case compute_fatigue d s of None \<Rightarrow> True
   | Some r \<Rightarrow> diagnostic_type r = ''fatigue'' \<and>
       confidence r = min 0.95 (0.6 + real (length (trailing_snapshots d s)) / 10)"
  by (simp add: compute_fatigue_def compute_fatigue_body_def cat_defs)

lemma saturation_case:
  "case compute_saturation d s of None \<Rightarrow> True
   | Some r \<Rightarrow> diagnostic_type r = ''saturation'' \<and>
       confidence r = min 0.95 (0.65 + real (length (trailing_snapshots d s)) / 10)"
  by (simp add: compute_saturation_def compute_saturation_body_def cat_defs)

lemma saturation_zero_fields:
  "case compute_saturation d s of None \<Rightarrow> True
   | Some r \<Rightarrow>
       (spend s \<le> 0 \<longrightarrow> current_value r = 0) \<and>
       (sum_list (map spend (trailing_snapshots d s)) \<le> 0 \<longrightarrow>
          previous_value r = Some 0 \<and> change_percentage r = Some 0)"
  by (auto simp add: compute_saturation_def compute_saturation_body_def cat_defs
        zero_less_divide_iff)

lemma auction_case:
  "case compute_auction_shifts d s of None \<Rightarrow> True
   | Some r \<Rightarrow> diagnostic_type r = ''auction_shifts'' \<and>
       confidence r =
         min 0.95 (0.7 + real (length (List.map_filter cpm (trailing_snapshots d s))) / 10)"
  by (simp add: compute_auction_shifts_def compute_auction_shifts_body_def cat_defs
        split: option.split)

lemma auction_zero_fields:
  "case compute_auction_shifts d s of None \<Rightarrow> True
   | Some r \<Rightarrow>
       (sum_list (List.map_filter cpm (trailing_snapshots d s)) \<le> 0 \<longrightarrow>
          change_percentage r = Some 0)"
  by (auto simp add: compute_auction_shifts_def compute_auction_shifts_body_def cat_defs
        zero_less_divide_iff split: option.split)

lemma tracking_case:
  "case compute_tracking_degradation d s of None \<Rightarrow> True
   | Some r \<Rightarrow> diagnostic_type r = ''tracking_degradation'' \<and> confidence r = 0.85"
  by (simp add: compute_tracking_degradation_def compute_tracking_degradation_body_def cat_defs
        split: option.split)

lemma concentration_case:
  "case compute_delivery_concentration e s of None \<Rightarrow> True
   | Some r \<Rightarrow> diagnostic_type r = ''delivery_concentration'' \<and> confidence r = 0.8"
  by (simp add: compute_delivery_concentration_def compute_delivery_concentration_body_def
        cat_defs split: option.split sum.split)

lemma fatigue_body_total: "\<exists>r. compute_fatigue_body d s = Inr r"
  by (simp add: compute_fatigue_body_def cat_defs)

lemma saturation_body_total: "\<exists>r. compute_saturation_body d s = Inr r"
  by (simp add: compute_saturation_body_def cat_defs)

lemma auction_body_total: "\<exists>r. compute_auction_shifts_body d s = Inr r"
  by (auto simp add: compute_auction_shifts_body_def cat_defs split: option.split)

lemma tracking_body_total: "\<exists>r. compute_tracking_degradation_body d s = Inr r"
  by (auto simp add: compute_tracking_degradation_body_def cat_defs split: option.split)

lemma spend_shares_fold:
  "tot \<noteq> (0::real) \<Longrightarrow>
   fold (\<lambda>c acc. bind_err acc (\<lambda>shares.
           bind_err (py_div (campaign_spend c) tot) (\<lambda>share. Inr (shares @ [share]))))
        cs (Inr acc0)
   = Inr (acc0 @ map (\<lambda>c. campaign_spend c / tot) cs)"
  by (induction cs arbitrary: acc0) (simp_all add: bind_err_def py_div_def)

lemma py_max_total: "xs \<noteq> [] \<Longrightarrow> \<exists>m. py_max xs = Inr m"
  by (cases xs) simp_all

lemma concentration_body_total:
  assumes "get_campaign_insights e (snapshot_date s - 1) (snapshot_date s) = Inr cs"
  shows "\<exists>r. compute_delivery_concentration_body e s = Inr r"
proof (cases "length cs < 2 \<or> sum_list (map campaign_spend cs) = 0")
  case True
  then show ?thesis
    using assms by (auto simp add: compute_delivery_concentration_body_def bind_err_def Let_def)
next
  case False
  let ?t = "sum_list (map campaign_spend cs)"
  let ?shares = "map (\<lambda>c. campaign_spend c / ?t) cs"
  have shares: "fold (\<lambda>c acc. bind_err acc (\<lambda>shares.
           bind_err (py_div (campaign_spend c) ?t) (\<lambda>share. Inr (shares @ [share]))))
        cs (Inr []) = Inr ?shares"
    using False spend_shares_fold [of ?t cs "[]"] by simp
  have "?shares \<noteq> []"
    using False by auto
  then obtain m where m: "py_max ?shares = Inr m"
    using py_max_total by blast
  show ?thesis
    unfolding compute_delivery_concentration_body_def Let_def
    using assms False by (simp add: bind_err_simps shares m)
qed

lemma concentration_zero_spend:
  assumes "get_campaign_insights e (snapshot_date s - 1) (snapshot_date s) = Inr cs"
    and "length cs < 2 \<or> sum_list (map campaign_spend cs) = 0"
  shows "compute_delivery_concentration e s = None"
  using assms
  by (auto simp add: compute_delivery_concentration_def compute_delivery_concentration_body_def
        cat_defs)

lemma short_window_skips:
  assumes "length (trailing_snapshots d s) < 3"
  shows "compute_fatigue d s = None \<and> compute_saturation d s = None \<and>
         compute_auction_shifts d s = None"
  using assms
  by (simp add: compute_fatigue_def compute_fatigue_body_def compute_saturation_def
        compute_saturation_body_def compute_auction_shifts_def compute_auction_shifts_body_def
        cat_defs)

lemma zero_average_skips:
  "(sum_list (map frequency (trailing_snapshots d s)) = 0 \<longrightarrow> compute_fatigue d s = None) \<and>
   (sum_list (map reach (trailing_snapshots d s)) = 0 \<or>
    sum_list (map spend (trailing_snapshots d s)) = 0 \<longrightarrow> compute_saturation d s = None)"
  by (simp add: compute_fatigue_def compute_fatigue_body_def compute_saturation_def
        compute_saturation_body_def cat_defs)

lemma no_health_skips:
  assumes "\<forall>h \<in> set (events_health d).
             \<not> (snapshot_date s - 7 \<le> eh_snapshot_date h \<and> eh_snapshot_date h < snapshot_date s)"
  shows "compute_tracking_degradation d s = None"
proof -
  have "filter (\<lambda>h. snapshot_date s - 7 \<le> eh_snapshot_date h \<and> eh_snapshot_date h < snapshot_date s)
          (events_health d) = []"
    using assms by (simp add: filter_empty_conv)
  then show ?thesis
    by (simp add: compute_tracking_degradation_def compute_tracking_degradation_body_def
          cat_defs order_by_desc_def split: option.split)
qed


lemma compute_all_diagnostics_eq:
  "compute_all_diagnostics e d s =
     List.map_filter id
       [compute_fatigue d s, compute_saturation d s, compute_delivery_concentration e s,
        compute_auction_shifts d s, compute_tracking_degradation d s]"
  by (simp add: compute_all_diagnostics_def append_if_def List.map_filter_def split: option.split)

lemma compute_all_diagnostics_mem:
  assumes "r \<in> set (compute_all_diagnostics e d s)"
  shows "compute_fatigue d s = Some r \<or> compute_saturation d s = Some r \<or>
         compute_delivery_concentration e s = Some r \<or> compute_auction_shifts d s = Some r \<or>
         compute_tracking_degradation d s = Some r"
  using assms
  by (auto simp add: compute_all_diagnostics_def append_if_def Let_def split: option.splits)

lemma fatigue_Some:
  "compute_fatigue d s = Some r \<Longrightarrow> diagnostic_type r = ''fatigue'' \<and>
     confidence r = min 0.95 (0.6 + real (length (trailing_snapshots d s)) / 10)"
  using fatigue_case [where d = d and s = s] by simp

lemma saturation_Some:
  "compute_saturation d s = Some r \<Longrightarrow> diagnostic_type r = ''saturation'' \<and>
     confidence r = min 0.95 (0.65 + real (length (trailing_snapshots d s)) / 10)"
  using saturation_case [where d = d and s = s] by simp

lemma concentration_Some:
  "compute_delivery_concentration e s = Some r \<Longrightarrow>
     diagnostic_type r = ''delivery_concentration'' \<and> confidence r = 0.8"
  using concentration_case [where e = e and s = s] by simp

lemma auction_Some:
  "compute_auction_shifts d s = Some r \<Longrightarrow> diagnostic_type r = ''auction_shifts'' \<and>
     confidence r = min 0.95 (0.7 + real (length (List.map_filter cpm (trailing_snapshots d s))) / 10)"
  using auction_case [where d = d and s = s] by simp

lemma tracking_Some:
  "compute_tracking_degradation d s = Some r \<Longrightarrow>
     diagnostic_type r = ''tracking_degradation'' \<and> confidence r = 0.85"
  using tracking_case [where d = d and s = s] by simp

lemmas category_Some =
  fatigue_Some saturation_Some concentration_Some auction_Some tracking_Some

lemma category_types:
  "map_option diagnostic_type (compute_fatigue d s) \<in> {None, Some ''fatigue''} \<and>
   map_option diagnostic_type (compute_saturation d s) \<in> {None, Some ''saturation''} \<and>
   map_option diagnostic_type (compute_delivery_concentration e s)
     \<in> {None, Some ''delivery_concentration''} \<and>
   map_option diagnostic_type (compute_auction_shifts d s) \<in> {None, Some ''auction_shifts''} \<and>
   map_option diagnostic_type (compute_tracking_degradation d s)
     \<in> {None, Some ''tracking_degradation''}"
proof (intro conjI)
  show "map_option diagnostic_type (compute_fatigue d s) \<in> {None, Some ''fatigue''}"
    using fatigue_case [where d = d and s = s] by (cases "compute_fatigue d s") simp_all
  show "map_option diagnostic_type (compute_saturation d s) \<in> {None, Some ''saturation''}"
    using saturation_case [where d = d and s = s] by (cases "compute_saturation d s") simp_all
  show "map_option diagnostic_type (compute_delivery_concentration e s)
     \<in> {None, Some ''delivery_concentration''}"
    using concentration_case [where e = e and s = s]
    by (cases "compute_delivery_concentration e s") simp_all
  show "map_option diagnostic_type (compute_auction_shifts d s) \<in> {None, Some ''auction_shifts''}"
    using auction_case [where d = d and s = s] by (cases "compute_auction_shifts d s") simp_all
  show "map_option diagnostic_type (compute_tracking_degradation d s)
     \<in> {None, Some ''tracking_degradation''}"
    using tracking_case [where d = d and s = s]
    by (cases "compute_tracking_degradation d s") simp_all
qed

lemma example_all_confidences:
  "map confidence (compute_all_diagnostics (example_env (Inr example_campaigns) [])
      (history_db 3) (example_snapshot 4 13 100)) = [0.9, 0.95, 0.8, 0.95, 0.85]"
  by (simp add: compute_defs cat_defs ex_defs upt_rec)

lemma example_fatigue_confidences:
  "map_option confidence (compute_fatigue (history_db 3) (example_snapshot 4 13 100)) = Some 0.9"
  "map_option confidence (compute_fatigue (history_db 4) (example_snapshot 5 13 100)) = Some 0.95"
  by (simp_all add: compute_defs cat_defs ex_defs upt_rec)

lemma example_isolated_types:
  "compute_delivery_concentration_body (example_env (Inl (CollaboratorError ''init'')) [])
     (example_snapshot 4 13 100) = Inl (CollaboratorError ''init'')"
  "map diagnostic_type (List.map_filter id
     [compute_fatigue (history_db 3) (example_snapshot 4 13 100),
      compute_saturation (history_db 3) (example_snapshot 4 13 100),
      compute_auction_shifts (history_db 3) (example_snapshot 4 13 100),
      compute_tracking_degradation (history_db 3) (example_snapshot 4 13 100)]) =
     [''fatigue'', ''saturation'', ''auction_shifts'', ''tracking_degradation'']"
  by (simp_all add: compute_defs cat_defs ex_defs upt_rec)

lemma example_skips:
  "length (trailing_snapshots empty_db (example_snapshot 1 0 0)) < 3"
  "\<forall>h \<in> set (events_health empty_db).
       \<not> (snapshot_date (example_snapshot 1 0 0) - 7 \<le> eh_snapshot_date h \<and>
          eh_snapshot_date h < snapshot_date (example_snapshot 1 0 0))"
  "get_campaign_insights
     (example_env (Inr [\<lparr>campaign_id = ''c1'', campaign_spend = 0\<rparr>,
                        \<lparr>campaign_id = ''c2'', campaign_spend = 0\<rparr>]) [])
     (snapshot_date (example_snapshot 1 0 0) - 1) (snapshot_date (example_snapshot 1 0 0)) =
   Inr [\<lparr>campaign_id = ''c1'', campaign_spend = 0\<rparr>, \<lparr>campaign_id = ''c2'', campaign_spend = 0\<rparr>]"
  "sum_list (map campaign_spend
     [\<lparr>campaign_id = ''c1'', campaign_spend = 0\<rparr>, \<lparr>campaign_id = ''c2'', campaign_spend = 0\<rparr>]) = 0"
  by (simp_all add: ex_defs)

subsection \<open>Fatigue severity at the thresholds\<close>

text \<open>
  The body of fatigue in exact arithmetic is the body with the arithmetic as a parameter,
  taken at \<open>exact_arith\<close>.
\<close>

lemma exact_arith_simps:
  "fl_sum exact_arith = sum_list"
  "fl_add exact_arith x y = x + y"
  "fl_sub exact_arith x y = x - y"
  "fl_mul exact_arith x y = x * y"
  "fl_div exact_arith x y = x / y"
  "fl_lit exact_arith x = x"
  "py_div_float exact_arith = py_div"
  by (simp_all add: exact_arith_def py_div_float_def py_div_def fun_eq_iff)

lemma fatigue_float_exact:
  "compute_fatigue_float_body exact_arith d s = compute_fatigue_body d s"
  unfolding compute_fatigue_float_body_def compute_fatigue_body_def exact_arith_simps ..

text \<open>
  An operation within relative error 1/1000 of a result \<open>e\<close> lies between
  \<open>0.999 e\<close> and \<open>1.001 e\<close>; three such operations in a row keep the computed change
  within 0.4 percent of the exact one.
\<close>

lemma rel_err_bounds:
  fixes r e u :: real
  assumes "\<bar>r - e\<bar> \<le> u * \<bar>e\<bar>" and "0 \<le> u" and "u \<le> 1 / 1000"
  shows "0 \<le> e \<Longrightarrow> e * (999 / 1000) \<le> r \<and> r \<le> e * (1001 / 1000)"
    and "e \<le> 0 \<Longrightarrow> r \<le> e * (999 / 1000)"
proof -
  have "u * \<bar>e\<bar> \<le> (1 / 1000) * \<bar>e\<bar>"
    using assms(3) by (intro mult_right_mono) simp_all
  with assms(1) have b: "\<bar>r - e\<bar> \<le> \<bar>e\<bar> / 1000" by simp
  show "0 \<le> e \<Longrightarrow> e * (999 / 1000) \<le> r \<and> r \<le> e * (1001 / 1000)"
    using b by linarith
  show "e \<le> 0 \<Longrightarrow> r \<le> e * (999 / 1000)"
    using b by linarith
qed

lemma accurate_change:
  fixes F c u :: real
  assumes acc: "change_accurate u a c F" and u: "0 \<le> u" "u \<le> 1 / 1000" and F: "0 < F"
  defines "p \<equiv> fl_mul a (fl_div a (fl_sub a c F) F) 100"
  shows "F * 1.31 \<le> c \<Longrightarrow> 30 < p"
    and "F * 1.16 \<le> c \<Longrightarrow> c \<le> F * 1.29 \<Longrightarrow> 15 < p \<and> p \<le> 30"
    and "c \<le> F * 1.14 \<Longrightarrow> p \<le> 15"
proof -
  define r1 where "r1 = fl_sub a c F"
  define q where "q = r1 / F"
  define r2 where "r2 = fl_div a r1 F"
  define e3 where "e3 = r2 * 100"
  define y where "y = (c - F) / F"
  have p: "p = fl_mul a r2 100"
    by (simp add: p_def r1_def r2_def)
  have e1: "\<bar>r1 - (c - F)\<bar> \<le> u * \<bar>c - F\<bar>"
    and e2: "\<bar>r2 - q\<bar> \<le> u * \<bar>q\<bar>"
    and e3: "\<bar>p - e3\<bar> \<le> u * \<bar>e3\<bar>"
    using acc by (simp_all add: change_accurate_def Let_def r1_def r2_def q_def e3_def p)
  have F0: "0 \<le> F" using F by simp
  have up: "997 / 1000 * (y * 100) \<le> p \<and> p \<le> 1004 / 1000 * (y * 100)" if "F \<le> c"
  proof -
    from that have x: "0 \<le> c - F" by simp
    with F have y0: "0 \<le> y" by (simp add: y_def)
    from rel_err_bounds(1) [OF e1 u x]
    have b1: "(c - F) * (999 / 1000) \<le> r1" "r1 \<le> (c - F) * (1001 / 1000)" by simp_all
    have "(c - F) * (999 / 1000) / F \<le> r1 / F" and "r1 / F \<le> (c - F) * (1001 / 1000) / F"
      by (rule divide_right_mono [OF b1(1) F0], rule divide_right_mono [OF b1(2) F0])
    then have d1: "y * (999 / 1000) \<le> q" "q \<le> y * (1001 / 1000)"
      by (simp_all add: y_def q_def)
    with y0 have q0: "0 \<le> q" by linarith
    from rel_err_bounds(1) [OF e2 u q0]
    have b2: "q * (999 / 1000) \<le> r2" "r2 \<le> q * (1001 / 1000)" by simp_all
    with q0 have r20: "0 \<le> e3" unfolding e3_def by linarith
    from rel_err_bounds(1) [OF e3 u r20]
    have b3: "e3 * (999 / 1000) \<le> p" "p \<le> e3 * (1001 / 1000)" by simp_all
    from y0 d1 b2 b3 show ?thesis unfolding e3_def by linarith
  qed
  have down: "p \<le> 0" if "c \<le> F"
  proof -
    have neg: "r \<le> 0" if "r \<le> e * (999 / 1000)" and "e \<le> 0" for r e :: real
    proof -
      from that(2) have "e * (999 / 1000) \<le> 0" by (simp add: mult_le_0_iff)
      with that(1) show ?thesis by linarith
    qed
    from that have x: "c - F \<le> 0" by simp
    from rel_err_bounds(2) [OF e1 u x] x have "r1 \<le> 0" by (rule neg)
    with F have q0: "q \<le> 0" by (simp add: q_def divide_le_0_iff)
    from rel_err_bounds(2) [OF e2 u q0] q0 have "r2 \<le> 0" by (rule neg)
    then have r20: "e3 \<le> 0" by (simp add: e3_def)
    from rel_err_bounds(2) [OF e3 u r20] r20 show ?thesis by (rule neg)
  qed
  have ylo: "k \<le> y" if "F * (1 + k) \<le> c" for k
    using that F by (simp add: y_def field_simps)
  have yhi: "y \<le> k" if "c \<le> F * (1 + k)" for k
    using that F by (simp add: y_def field_simps)
  show "30 < p" if "F * 1.31 \<le> c"
  proof -
    from that have c1: "F * (1 + 31 / 100) \<le> c" by simp
    with F have "F \<le> c" by (simp add: algebra_simps)
    moreover have "31 / 100 \<le> y" using c1 by (rule ylo)
    ultimately show ?thesis using up by linarith
  qed
  show "15 < p \<and> p \<le> 30" if "F * 1.16 \<le> c" and "c \<le> F * 1.29"
  proof -
    from that have c1: "F * (1 + 16 / 100) \<le> c" and c2: "c \<le> F * (1 + 29 / 100)"
      by simp_all
    from c1 F have "F \<le> c" by (simp add: algebra_simps)
    moreover have "16 / 100 \<le> y" using c1 by (rule ylo)
    moreover have "y \<le> 29 / 100" using c2 by (rule yhi)
    ultimately show ?thesis using up by linarith
  qed
  show "p \<le> 15" if "c \<le> F * 1.14"
  proof (cases "F \<le> c")
    case True
    from that have "c \<le> F * (1 + 14 / 100)" by simp
    then have "y \<le> 14 / 100" by (rule yhi)
    with True show ?thesis using up by linarith
  next
    case False
    then have "p \<le> 0" using down by simp
    then show ?thesis by linarith
  qed
qed

lemma accurate_examples:
  "change_accurate 0 exact_arith c F"
  by (simp add: change_accurate_def exact_arith_def)

lemma example_window:
  "length (trailing_snapshots (history_db 3) (example_snapshot 4 c 100)) = 3"
  "fl_div exact_arith (fl_sum exact_arith
     (map frequency (trailing_snapshots (history_db 3) (example_snapshot 4 c 100)))) 3 = 10"
  "fl_div skewed_arith (fl_sum skewed_arith
     (map frequency (trailing_snapshots (history_db 3) (example_snapshot 4 c 100)))) 3 = 2001 / 200"
  "frequency (example_snapshot 4 c 100) = c"
  by (simp_all add: ex_defs exact_arith_def skewed_arith_def upt_rec)

text \<open>
  C3, as amended. For a trailing window of exactly 3 snapshots whose average frequency,
  as the code computes it, is \<open>F > 0\<close>, \<open>compute_fatigue\<close> emits a diagnostic whose
  percentage change \<open>p\<close> is \<open>(current - F) / F * 100\<close> with each operation rounded as
  the arithmetic of doubles rounds it, and whose severity is "high" exactly when
  \<open>p > 30\<close>, "medium" exactly when \<open>15 < p \<le> 30\<close> and "low" otherwise. Whenever each
  of the three operations that compute \<open>p\<close> (the subtraction, the division, the
  multiplication) is within a relative error of at most 1/1000 of its exact result, as
  the operations on doubles are unless a result overflows or underflows, a current
  frequency of at least \<open>F * 1.31\<close> gives "high", one from \<open>F * 1.16\<close> to
  \<open>F * 1.29\<close> gives "medium" and one of at most \<open>F * 1.14\<close>, so \<open>F * 1.10\<close>, gives
  "low". At \<open>F * 1.30\<close> and \<open>F * 1.15\<close> themselves the severity depends on how \<open>p\<close>
  is rounded.
\<close>

theorem C3_fatigue:
  assumes "length (trailing_snapshots d s) = 3"
    and "fl_div a (fl_sum a (map frequency (trailing_snapshots d s))) 3 = F"
    and "0 < F"
  shows "\<exists>r. compute_fatigue_float a d s = Some r \<and>
     change_percentage r = Some (fl_mul a (fl_div a (fl_sub a (frequency s) F) F) 100) \<and>
     severity r =
       (if 30 < fl_mul a (fl_div a (fl_sub a (frequency s) F) F) 100 then ''high''
        else if 15 < fl_mul a (fl_div a (fl_sub a (frequency s) F) F) 100 then ''medium''
        else ''low'') \<and>
     (change_accurate u a (frequency s) F \<and> 0 \<le> u \<and> u \<le> 1 / 1000 \<longrightarrow>
        (F * 1.31 \<le> frequency s \<longrightarrow> severity r = ''high'') \<and>
        (F * 1.16 \<le> frequency s \<and> frequency s \<le> F * 1.29 \<longrightarrow> severity r = ''medium'') \<and>
        (frequency s \<le> F * 1.14 \<longrightarrow> severity r = ''low''))"
proof -
  let ?p = "fl_mul a (fl_div a (fl_sub a (frequency s) F) F) 100"
  have "\<exists>r. compute_fatigue_float a d s = Some r \<and> change_percentage r = Some ?p \<and>
     severity r = (if 30 < ?p then ''high'' else if 15 < ?p then ''medium'' else ''low'')"
    using assms
    by (simp add: compute_fatigue_float_def compute_fatigue_float_body_def py_div_float_def
          bind_err_simps except_none_def Let_def)
  then obtain r where r: "compute_fatigue_float a d s = Some r"
    "change_percentage r = Some ?p"
    "severity r = (if 30 < ?p then ''high'' else if 15 < ?p then ''medium'' else ''low'')"
    by blast
  have "(F * 1.31 \<le> frequency s \<longrightarrow> severity r = ''high'') \<and>
        (F * 1.16 \<le> frequency s \<and> frequency s \<le> F * 1.29 \<longrightarrow> severity r = ''medium'') \<and>
        (frequency s \<le> F * 1.14 \<longrightarrow> severity r = ''low'')"
    if "change_accurate u a (frequency s) F" and "0 \<le> u" and "u \<le> 1 / 1000"
    using accurate_change [OF that \<open>0 < F\<close>] r(3) by auto
  with r show ?thesis by blast
qed

text \<open>
  The witness takes the window 10, 10, 10: in exact arithmetic a current frequency of 13
  gives the change 30 and "medium", 14 gives "high", 12 "medium" and 11 "low"; in an
  arithmetic that returns every result 1/2000 too large the average is 10.005 and the
  current frequency \<open>10.005 * 1.30 = 13.0065\<close> gives "high".
\<close>

theorem C3_fatigue_witness:
  "(\<exists>r. compute_fatigue_float exact_arith (history_db 3) (example_snapshot 4 13 100) = Some r \<and>
        change_percentage r = Some 30 \<and> severity r = ''medium'') \<and>
   (\<exists>r. compute_fatigue_float exact_arith (history_db 3) (example_snapshot 4 14 100) = Some r \<and>
        severity r = ''high'') \<and>
   (\<exists>r. compute_fatigue_float exact_arith (history_db 3) (example_snapshot 4 12 100) = Some r \<and>
        severity r = ''medium'') \<and>
   (\<exists>r. compute_fatigue_float exact_arith (history_db 3) (example_snapshot 4 11 100) = Some r \<and>
        severity r = ''low'') \<and>
   (\<exists>r. compute_fatigue_float skewed_arith (history_db 3)
          (example_snapshot 4 (26013 / 2000) 100) = Some r \<and>
        severity r = ''high'')"
proof -
  have pos: "(0::real) < 10" "(0::real) < 2001 / 200" by simp_all
  have u: "(0::real) \<le> 0" "(0::real) \<le> 1 / 1000" by simp_all
  note exact = C3_fatigue [OF example_window(1) example_window(2) pos(1), where u = 0]
  have at13: "\<exists>r. compute_fatigue_float exact_arith (history_db 3) (example_snapshot 4 13 100) = Some r \<and>
        change_percentage r = Some 30 \<and> severity r = ''medium''"
    using exact [of 13] by (simp add: example_window(4) exact_arith_simps)
  have at14: "\<exists>r. compute_fatigue_float exact_arith (history_db 3) (example_snapshot 4 14 100) = Some r \<and>
        severity r = ''high''"
  proof -
    have "(10::real) * 1.31 \<le> frequency (example_snapshot 4 14 100)"
      by (simp add: example_window(4))
    then show ?thesis
      using exact [of 14] accurate_examples [of "frequency (example_snapshot 4 14 100)" 10] u
      by blast
  qed
  have at12: "\<exists>r. compute_fatigue_float exact_arith (history_db 3) (example_snapshot 4 12 100) = Some r \<and>
        severity r = ''medium''"
  proof -
    have "(10::real) * 1.16 \<le> frequency (example_snapshot 4 12 100) \<and>
          frequency (example_snapshot 4 12 100) \<le> 10 * 1.29"
      by (simp add: example_window(4))
    then show ?thesis
      using exact [of 12] accurate_examples [of "frequency (example_snapshot 4 12 100)" 10] u
      by blast
  qed
  have at11: "\<exists>r. compute_fatigue_float exact_arith (history_db 3) (example_snapshot 4 11 100) = Some r \<and>
        severity r = ''low''"
  proof -
    have "frequency (example_snapshot 4 11 100) \<le> 10 * 1.14"
      by (simp add: example_window(4))
    then show ?thesis
      using exact [of 11] accurate_examples [of "frequency (example_snapshot 4 11 100)" 10] u
      by blast
  qed
  have pv: "fl_mul skewed_arith (fl_div skewed_arith
              (fl_sub skewed_arith (26013 / 2000) (2001 / 200)) (2001 / 200)) 100
            = 24036018003 / 800000000"
    by (simp add: skewed_arith_def)
  have "\<exists>r. compute_fatigue_float skewed_arith (history_db 3)
          (example_snapshot 4 (26013 / 2000) 100) = Some r \<and>
          change_percentage r = Some (24036018003 / 800000000) \<and> severity r = ''high''"
    using C3_fatigue [OF example_window(1) example_window(3) pos(2), where u = 0,
        of "26013 / 2000"]
    by (simp add: example_window(4) pv)
  then have skewed: "\<exists>r. compute_fatigue_float skewed_arith (history_db 3)
          (example_snapshot 4 (26013 / 2000) 100) = Some r \<and> severity r = ''high''"
    by blast
  from at13 at14 at12 at11 skewed show ?thesis by blast
qed

text \<open>
  The claim as first stated fails: with three snapshots of frequency 10 and a current
  frequency of 13.0, which is \<open>10 * 1.30\<close>, the computed change is exactly 30, in exact
  arithmetic as in doubles, and 30 is not above 30.
\<close>

theorem C3_counterexample:
  "length (trailing_snapshots (history_db 3) (example_snapshot 4 (10 * 1.30) 100)) = 3 \<and>
   fl_div exact_arith (fl_sum exact_arith
     (map frequency (trailing_snapshots (history_db 3) (example_snapshot 4 (10 * 1.30) 100)))) 3
     = 10 \<and>
   map_option change_percentage
     (compute_fatigue_float exact_arith (history_db 3) (example_snapshot 4 (10 * 1.30) 100))
     = Some (Some 30) \<and>
   map_option severity
     (compute_fatigue_float exact_arith (history_db 3) (example_snapshot 4 (10 * 1.30) 100))
     = Some ''medium''"
  by (simp add: compute_fatigue_float_def compute_fatigue_float_body_def py_div_float_def
        exact_arith_def cat_defs ex_defs upt_rec)

subsection \<open>Never raising\<close>

text \<open>
  C6. No category raises: the bodies of fatigue, saturation, auction shifts and tracking
  degradation return a value on every store and snapshot, and the body of delivery
  concentration does whenever the platform client returns a list, because every division
  is guarded. A window shorter than 3 skips fatigue, saturation and auction shifts; a zero
  average frequency skips fatigue; a zero average reach or spend skips saturation; a zero
  total campaign spend skips delivery concentration; an empty health window skips tracking
  degradation; a current spend that is not positive gives saturation the efficiency 0; and
  an average cpm that is not positive gives auction shifts the change 0.
\<close>

theorem C6_never_raises:
  "(\<exists>r. compute_fatigue_body d s = Inr r) \<and>
   (\<exists>r. compute_saturation_body d s = Inr r) \<and>
   (\<exists>r. compute_auction_shifts_body d s = Inr r) \<and>
   (\<exists>r. compute_tracking_degradation_body d s = Inr r) \<and>
   (\<forall>cs. get_campaign_insights e (snapshot_date s - 1) (snapshot_date s) = Inr cs \<longrightarrow>
      (\<exists>r. compute_delivery_concentration_body e s = Inr r)) \<and>
   (length (trailing_snapshots d s) < 3 \<longrightarrow>
      compute_fatigue d s = None \<and> compute_saturation d s = None \<and>
      compute_auction_shifts d s = None) \<and>
   (sum_list (map frequency (trailing_snapshots d s)) = 0 \<longrightarrow> compute_fatigue d s = None) \<and>
   (sum_list (map reach (trailing_snapshots d s)) = 0 \<or>
    sum_list (map spend (trailing_snapshots d s)) = 0 \<longrightarrow> compute_saturation d s = None) \<and>
   (\<forall>r. compute_saturation d s = Some r \<and> spend s \<le> 0 \<longrightarrow> current_value r = 0) \<and>
   (\<forall>r. compute_auction_shifts d s = Some r \<and>
      sum_list (List.map_filter cpm (trailing_snapshots d s)) \<le> 0
      \<longrightarrow> change_percentage r = Some 0) \<and>
   (\<forall>cs. get_campaign_insights e (snapshot_date s - 1) (snapshot_date s) = Inr cs \<and>
      sum_list (map campaign_spend cs) = 0 \<longrightarrow> compute_delivery_concentration e s = None) \<and>
   ((\<forall>h \<in> set (events_health d).
       \<not> (snapshot_date s - 7 \<le> eh_snapshot_date h \<and> eh_snapshot_date h < snapshot_date s))
     \<longrightarrow> compute_tracking_degradation d s = None)"
proof -
  have c5: "\<forall>cs. get_campaign_insights e (snapshot_date s - 1) (snapshot_date s) = Inr cs \<longrightarrow>
      (\<exists>r. compute_delivery_concentration_body e s = Inr r)"
    using concentration_body_total by blast
  have c6: "length (trailing_snapshots d s) < 3 \<longrightarrow>
      compute_fatigue d s = None \<and> compute_saturation d s = None \<and>
      compute_auction_shifts d s = None"
    using short_window_skips by blast
  have c7: "sum_list (map frequency (trailing_snapshots d s)) = 0 \<longrightarrow> compute_fatigue d s = None"
    and c8: "sum_list (map reach (trailing_snapshots d s)) = 0 \<or>
      sum_list (map spend (trailing_snapshots d s)) = 0 \<longrightarrow> compute_saturation d s = None"
    using zero_average_skips [where d = d and s = s] by blast+
  have c9: "\<forall>r. compute_saturation d s = Some r \<and> spend s \<le> 0 \<longrightarrow> current_value r = 0"
    using saturation_zero_fields [where d = d and s = s] by auto
  have c10: "\<forall>r. compute_auction_shifts d s = Some r \<and>
      sum_list (List.map_filter cpm (trailing_snapshots d s)) \<le> 0
      \<longrightarrow> change_percentage r = Some 0"
    using auction_zero_fields [where d = d and s = s] by auto
  have c11: "\<forall>cs. get_campaign_insights e (snapshot_date s - 1) (snapshot_date s) = Inr cs \<and>
      sum_list (map campaign_spend cs) = 0 \<longrightarrow> compute_delivery_concentration e s = None"
    using concentration_zero_spend by blast
  have c12: "(\<forall>h \<in> set (events_health d).
       \<not> (snapshot_date s - 7 \<le> eh_snapshot_date h \<and> eh_snapshot_date h < snapshot_date s))
     \<longrightarrow> compute_tracking_degradation d s = None"
    using no_health_skips by blast
  show ?thesis
    by (intro conjI fatigue_body_total saturation_body_total auction_body_total
          tracking_body_total c5 c6 c7 c8 c9 c10 c11 c12)
qed

lemma example_zero:
  "\<exists>r. compute_saturation zero_db (zero_snapshot 4 0) = Some r"
  "\<exists>r. compute_auction_shifts zero_db (zero_snapshot 4 0) = Some r"
  "spend (zero_snapshot 4 0) \<le> 0"
  "sum_list (List.map_filter cpm (trailing_snapshots zero_db (zero_snapshot 4 0))) \<le> 0"
  by (simp_all add: compute_defs cat_defs ex_defs zero_db_def zero_snapshot_def upt_rec)

theorem C6_never_raises_witness:
  "length (trailing_snapshots empty_db (example_snapshot 1 0 0)) < 3 \<and>
   compute_fatigue empty_db (example_snapshot 1 0 0) = None \<and>
   compute_saturation empty_db (example_snapshot 1 0 0) = None \<and>
   compute_auction_shifts empty_db (example_snapshot 1 0 0) = None \<and>
   compute_tracking_degradation empty_db (example_snapshot 1 0 0) = None \<and>
   compute_delivery_concentration
     (example_env (Inr [\<lparr>campaign_id = ''c1'', campaign_spend = 0\<rparr>,
                        \<lparr>campaign_id = ''c2'', campaign_spend = 0\<rparr>]) [])
     (example_snapshot 1 0 0) = None \<and>
   (\<exists>r. compute_saturation zero_db (zero_snapshot 4 0) = Some r \<and> current_value r = 0) \<and>
   (\<exists>r. compute_auction_shifts zero_db (zero_snapshot 4 0) = Some r \<and>
        change_percentage r = Some 0)"
proof -
  have skips:
    "length (trailing_snapshots empty_db (example_snapshot 1 0 0)) < 3 \<and>
     compute_fatigue empty_db (example_snapshot 1 0 0) = None \<and>
     compute_saturation empty_db (example_snapshot 1 0 0) = None \<and>
     compute_auction_shifts empty_db (example_snapshot 1 0 0) = None \<and>
     compute_tracking_degradation empty_db (example_snapshot 1 0 0) = None \<and>
     compute_delivery_concentration
       (example_env (Inr [\<lparr>campaign_id = ''c1'', campaign_spend = 0\<rparr>,
                          \<lparr>campaign_id = ''c2'', campaign_spend = 0\<rparr>]) [])
       (example_snapshot 1 0 0) = None"
    using C6_never_raises [of empty_db "example_snapshot 1 0 0"
        "example_env (Inr [\<lparr>campaign_id = ''c1'', campaign_spend = 0\<rparr>,
                           \<lparr>campaign_id = ''c2'', campaign_spend = 0\<rparr>]) []"]
      example_skips
    by blast
  have zeros:
    "(\<exists>r. compute_saturation zero_db (zero_snapshot 4 0) = Some r \<and> current_value r = 0) \<and>
     (\<exists>r. compute_auction_shifts zero_db (zero_snapshot 4 0) = Some r \<and>
          change_percentage r = Some 0)"
    using C6_never_raises [of zero_db "zero_snapshot 4 0" "example_env (Inr []) []"]
      example_zero
    by blast
  from skips zeros show ?thesis by blast
qed


subsection \<open>Confidence\<close>

text \<open>
  C7. Every diagnostic returned by \<open>compute_all_diagnostics\<close> has confidence at most
  0.95. The confidence of fatigue is \<open>min(0.95, 0.6 + n/10)\<close> and that of saturation
  \<open>min(0.95, 0.65 + n/10)\<close> for a window of \<open>n\<close> snapshots, that of auction shifts
  \<open>min(0.95, 0.7 + n/10)\<close> for \<open>n\<close> cpm values, that of delivery concentration 0.8 and
  that of tracking degradation 0.85; so within a category the confidence does not
  decrease when the number of samples grows.
\<close>

theorem C7_confidence:
  "(\<forall>r \<in> set (compute_all_diagnostics e d s). confidence r \<le> 0.95) \<and>
   (\<forall>r. compute_fatigue d s = Some r \<longrightarrow>
      confidence r = min 0.95 (0.6 + real (length (trailing_snapshots d s)) / 10)) \<and>
   (\<forall>r. compute_saturation d s = Some r \<longrightarrow>
      confidence r = min 0.95 (0.65 + real (length (trailing_snapshots d s)) / 10)) \<and>
   (\<forall>r. compute_auction_shifts d s = Some r \<longrightarrow>
      confidence r =
        min 0.95 (0.7 + real (length (List.map_filter cpm (trailing_snapshots d s))) / 10)) \<and>
   (\<forall>r. compute_delivery_concentration e s = Some r \<longrightarrow> confidence r = 0.8) \<and>
   (\<forall>r. compute_tracking_degradation d s = Some r \<longrightarrow> confidence r = 0.85) \<and>
   (\<forall>r r'. compute_fatigue d s = Some r \<and> compute_fatigue d' s' = Some r' \<and>
      length (trailing_snapshots d s) \<le> length (trailing_snapshots d' s')
      \<longrightarrow> confidence r \<le> confidence r') \<and>
   (\<forall>r r'. compute_saturation d s = Some r \<and> compute_saturation d' s' = Some r' \<and>
      length (trailing_snapshots d s) \<le> length (trailing_snapshots d' s')
      \<longrightarrow> confidence r \<le> confidence r') \<and>
   (\<forall>r r'. compute_auction_shifts d s = Some r \<and> compute_auction_shifts d' s' = Some r' \<and>
      length (List.map_filter cpm (trailing_snapshots d s))
        \<le> length (List.map_filter cpm (trailing_snapshots d' s'))
      \<longrightarrow> confidence r \<le> confidence r') \<and>
   (\<forall>r r'. compute_delivery_concentration e s = Some r \<and>
      compute_delivery_concentration e' s' = Some r' \<longrightarrow> confidence r \<le> confidence r') \<and>
   (\<forall>r r'. compute_tracking_degradation d s = Some r \<and>
      compute_tracking_degradation d' s' = Some r' \<longrightarrow> confidence r \<le> confidence r')"
proof -
  have bound: "confidence r \<le> 0.95" if "r \<in> set (compute_all_diagnostics e d s)" for r
  proof -
    have capped: "c \<le> 0.95" if "c = min 0.95 x" for c x :: real
      using that by (simp only: min.cobounded1)
    from compute_all_diagnostics_mem [OF that] show ?thesis
    proof (elim disjE)
      assume "compute_fatigue d s = Some r"
      then show ?thesis using fatigue_Some capped by blast
    next
      assume "compute_saturation d s = Some r"
      then show ?thesis using saturation_Some capped by blast
    next
      assume "compute_delivery_concentration e s = Some r"
      then have "confidence r = 0.8" using concentration_Some by blast
      then show ?thesis by simp
    next
      assume "compute_auction_shifts d s = Some r"
      then show ?thesis using auction_Some capped by blast
    next
      assume "compute_tracking_degradation d s = Some r"
      then have "confidence r = 0.85" using tracking_Some by blast
      then show ?thesis by simp
    qed
  qed
  have mono: "min (95 / 100) (k + real m / 10) \<le> min (95 / 100) (k + real n / 10)"
    if "m \<le> n" for k :: real and m n :: nat
    using that by (simp add: min_def)
  show ?thesis
    using bound mono
    by (auto dest!: category_Some simp del: min_less_iff_conj min.bounded_iff)
qed

lemma example_fatigue_emitted:
  "\<exists>r. compute_fatigue (history_db 3) (example_snapshot 4 13 100) = Some r"
  "\<exists>r. compute_fatigue (history_db 4) (example_snapshot 5 13 100) = Some r"
  "length (trailing_snapshots (history_db 3) (example_snapshot 4 13 100))
     \<le> length (trailing_snapshots (history_db 4) (example_snapshot 5 13 100))"
  by (simp_all add: compute_defs cat_defs ex_defs upt_rec)

theorem C7_confidence_witness:
  "map confidence (compute_all_diagnostics (example_env (Inr example_campaigns) [])
      (history_db 3) (example_snapshot 4 13 100)) = [0.9, 0.95, 0.8, 0.95, 0.85] \<and>
   list_all (\<lambda>r. confidence r \<le> 0.95)
     (compute_all_diagnostics (example_env (Inr example_campaigns) [])
        (history_db 3) (example_snapshot 4 13 100)) \<and>
   map_option confidence (compute_fatigue (history_db 3) (example_snapshot 4 13 100)) = Some 0.9 \<and>
   map_option confidence (compute_fatigue (history_db 4) (example_snapshot 5 13 100)) = Some 0.95 \<and>
   (\<exists>r r'. compute_fatigue (history_db 3) (example_snapshot 4 13 100) = Some r \<and>
      compute_fatigue (history_db 4) (example_snapshot 5 13 100) = Some r' \<and>
      confidence r \<le> confidence r')"
proof -
  note inst = C7_confidence [of "example_env (Inr example_campaigns) []" "history_db 3"
      "example_snapshot 4 13 100" "history_db 4" "example_snapshot 5 13 100"
      "example_env (Inr example_campaigns) []"]
  have "\<forall>r \<in> set (compute_all_diagnostics (example_env (Inr example_campaigns) [])
      (history_db 3) (example_snapshot 4 13 100)). confidence r \<le> 0.95"
    using inst by (rule conjunct1)
  then have bound: "list_all (\<lambda>r. confidence r \<le> 0.95)
     (compute_all_diagnostics (example_env (Inr example_campaigns) [])
        (history_db 3) (example_snapshot 4 13 100))"
    by (simp only: list_all_iff)
  have mono: "\<exists>r r'. compute_fatigue (history_db 3) (example_snapshot 4 13 100) = Some r \<and>
      compute_fatigue (history_db 4) (example_snapshot 5 13 100) = Some r' \<and>
      confidence r \<le> confidence r'"
    using inst example_fatigue_emitted by blast
  show ?thesis
    using bound mono example_all_confidences example_fatigue_confidences by blast
qed


subsection \<open>All diagnostics\<close>

text \<open>
  C8. \<open>compute_all_diagnostics\<close> returns exactly the results of the five categories
  that are not \<open>None\<close>, in the order fatigue, saturation, delivery concentration,
  auction shifts, tracking degradation, each category carrying its own type; when the
  body of delivery concentration raises, the result is the list of the other four
  categories' results, unchanged.
\<close>

theorem C8_compute_all_diagnostics:
  "compute_all_diagnostics e d s =
     List.map_filter id
       [compute_fatigue d s, compute_saturation d s, compute_delivery_concentration e s,
        compute_auction_shifts d s, compute_tracking_degradation d s] \<and>
   map_option diagnostic_type (compute_fatigue d s) \<in> {None, Some ''fatigue''} \<and>
   map_option diagnostic_type (compute_saturation d s) \<in> {None, Some ''saturation''} \<and>
   map_option diagnostic_type (compute_delivery_concentration e s)
     \<in> {None, Some ''delivery_concentration''} \<and>
   map_option diagnostic_type (compute_auction_shifts d s) \<in> {None, Some ''auction_shifts''} \<and>
   map_option diagnostic_type (compute_tracking_degradation d s)
     \<in> {None, Some ''tracking_degradation''} \<and>
   (\<forall>err. compute_delivery_concentration_body e s = Inl err \<longrightarrow>
      compute_all_diagnostics e d s =
        List.map_filter id
          [compute_fatigue d s, compute_saturation d s,
           compute_auction_shifts d s, compute_tracking_degradation d s])"
proof -
  have isolated: "compute_all_diagnostics e d s =
        List.map_filter id
          [compute_fatigue d s, compute_saturation d s,
           compute_auction_shifts d s, compute_tracking_degradation d s]"
    if "compute_delivery_concentration_body e s = Inl err" for err
    using that
    by (simp add: compute_all_diagnostics_eq compute_delivery_concentration_def except_none_def
          List.map_filter_def)
  show ?thesis
    using category_types [where d = d and s = s and e = e] isolated compute_all_diagnostics_eq [of e d s] by blast
qed

theorem C8_compute_all_diagnostics_witness:
  "compute_delivery_concentration_body (example_env (Inl (CollaboratorError ''init'')) [])
     (example_snapshot 4 13 100) = Inl (CollaboratorError ''init'') \<and>
   map diagnostic_type (compute_all_diagnostics (example_env (Inl (CollaboratorError ''init'')) [])
     (history_db 3) (example_snapshot 4 13 100)) =
     [''fatigue'', ''saturation'', ''auction_shifts'', ''tracking_degradation'']"
proof -
  have "compute_all_diagnostics (example_env (Inl (CollaboratorError ''init'')) [])
     (history_db 3) (example_snapshot 4 13 100) =
     List.map_filter id
     [compute_fatigue (history_db 3) (example_snapshot 4 13 100),
      compute_saturation (history_db 3) (example_snapshot 4 13 100),
      compute_auction_shifts (history_db 3) (example_snapshot 4 13 100),
      compute_tracking_degradation (history_db 3) (example_snapshot 4 13 100)]"
    using C8_compute_all_diagnostics [of "example_env (Inl (CollaboratorError ''init'')) []"
      "history_db 3" "example_snapshot 4 13 100"] example_isolated_types(1)
    by blast
  then show ?thesis
    using example_isolated_types by simp
qed

subsection \<open>The sample requirement of auction shifts\<close>

text \<open>
  C9, as amended. \<open>compute_auction_shifts\<close> emits a diagnostic exactly when the
  trailing window holds at least 3 snapshots, the current snapshot has a cpm, and at
  least 2 snapshots of the window have a cpm; in every other case it is skipped.
\<close>

theorem C9_auction:
  "(compute_auction_shifts d s \<noteq> None) =
   (3 \<le> length (trailing_snapshots d s) \<and> cpm s \<noteq> None \<and>
    2 \<le> length (List.map_filter cpm (trailing_snapshots d s)))"
  by (auto simp add: compute_auction_shifts_def compute_auction_shifts_body_def cat_defs split: option.split)

theorem C9_auction_witness:
  "compute_auction_shifts (history_db 3) (example_snapshot 4 13 100) \<noteq> None \<and>
   3 \<le> length (trailing_snapshots (history_db 3) (example_snapshot 4 13 100)) \<and>
   cpm (example_snapshot 4 13 100) \<noteq> None \<and>
   2 \<le> length (List.map_filter cpm (trailing_snapshots (history_db 3) (example_snapshot 4 13 100)))"
  using C9_auction [of "history_db 3" "example_snapshot 4 13 100"]
  by (simp add: ex_defs upt_rec)

text \<open>
  The claim as first stated fails: a window of two snapshots, both with a cpm, is skipped
  by the guard on the window length.
\<close>

theorem C9_counterexample:
  "cpm (example_snapshot 3 10 100) = Some 5 \<and>
   length (List.map_filter cpm (trailing_snapshots (history_db 2) (example_snapshot 3 10 100))) = 2 \<and>
   compute_auction_shifts (history_db 2) (example_snapshot 3 10 100) = None"
  by (simp add: compute_auction_shifts_def compute_auction_shifts_body_def cat_defs ex_defs upt_rec)

section \<open>Properties of context assembly and of the daily overview\<close>

lemma queries_frame [simp]:
  "anchor_snapshot (d\<lparr>diagnostic_results := x\<rparr>) t = anchor_snapshot d t"
  "anchor_snapshot (d\<lparr>llm_log := l\<rparr>) t = anchor_snapshot d t"
  "previous_snapshot_of (d\<lparr>diagnostic_results := x\<rparr>) s = previous_snapshot_of d s"
  "previous_snapshot_of (d\<lparr>llm_log := l\<rparr>) s = previous_snapshot_of d s"
  "existing_overview (d\<lparr>diagnostic_results := x\<rparr>) t = existing_overview d t"
  "existing_overview (d\<lparr>llm_log := l\<rparr>) t = existing_overview d t"
  by (simp_all add: anchor_snapshot_def previous_snapshot_of_def existing_overview_def
        cong: option.case_cong)

lemma get_context_frame_log [simp]:
  "get_context_for_date (d\<lparr>llm_log := l\<rparr>) t = get_context_for_date d t"
  by (simp add: get_context_for_date_def cong: option.case_cong)

lemma get_context_frame_diagnostics:
  assumes "get_context_for_date d t = Inr c"
  shows "\<exists>c'. get_context_for_date (d\<lparr>diagnostic_results := x\<rparr>) t = Inr c'"
proof (cases "anchor_snapshot d t")
  case None
  then show ?thesis by (simp add: get_context_for_date_def)
next
  case (Some s)
  show ?thesis
  proof (cases "previous_snapshot_of d s")
    case None
    with Some show ?thesis by (simp add: get_context_for_date_def Let_def bind_err_simps)
  next
    case (Some p)
    note prev = this
    show ?thesis
    proof (cases "0 < spend p")
      case False
      with \<open>anchor_snapshot d t = Some s\<close> prev show ?thesis
        by (simp add: get_context_for_date_def Let_def bind_err_simps)
    next
      case True
      with assms \<open>anchor_snapshot d t = Some s\<close> prev
      obtain ch where "changes_dict s p = Inr ch"
        by (cases "changes_dict s p") (simp_all add: get_context_for_date_def Let_def bind_err_simps)
      with True \<open>anchor_snapshot d t = Some s\<close> prev show ?thesis
        by (simp add: get_context_for_date_def Let_def bind_err_simps)
    qed
  qed
qed

lemma complete_overview_failure:
  assumes "request_overview e t ctx = Inl err"
  shows "complete_overview e d t ctx =
           (PDict [(''error'', PErr err), (''overview_date'', PDate t)],
            d\<lparr>llm_log := llm_log d @ [(t, ctx)]\<rparr>)"
  using assms by (simp add: complete_overview_def Let_def)

lemma complete_overview_success:
  assumes "request_overview e t ctx = Inr (ov, r)"
  shows "complete_overview e d t ctx =
           (r, d\<lparr>llm_log := llm_log d @ [(t, ctx)],
                  daily_overviews := daily_overviews d @ [ov]\<rparr>)"
  using assms by (simp add: complete_overview_def Let_def)

lemma complete_overview_frame:
  "diagnostic_results (snd (complete_overview e d t ctx)) = diagnostic_results d"
  "snapshots (snd (complete_overview e d t ctx)) = snapshots d"
  "llm_log (snd (complete_overview e d t ctx)) = llm_log d @ [(t, ctx)]"
  by (simp_all add: complete_overview_def Let_def split: sum.split prod.split)

lemma generate_cached:
  assumes "existing_overview d t = Some ov"
  shows "generate_daily_overview e d t = (cached_overview e ov, d)"
  using assms by (simp add: generate_daily_overview_def)

lemma generate_anchor:
  assumes "existing_overview d t = None" and "get_context_for_date d t = Inr c"
    and "anchor_snapshot d t = Some s"
    and "get_context_for_date
           (d\<lparr>diagnostic_results := diagnostic_results d @ compute_all_diagnostics e d s\<rparr>) t
         = Inr ctx"
  shows "generate_daily_overview e d t =
     (Inr (fst (complete_overview e
        (d\<lparr>diagnostic_results := diagnostic_results d @ compute_all_diagnostics e d s\<rparr>) t ctx)),
      snd (complete_overview e
        (d\<lparr>diagnostic_results := diagnostic_results d @ compute_all_diagnostics e d s\<rparr>) t ctx))"
  using assms by (simp add: generate_daily_overview_def Let_def case_prod_beta)

lemma generate_no_anchor:
  assumes "existing_overview d t = None" and "get_context_for_date d t = Inr c"
    and "anchor_snapshot d t = None"
  shows "generate_daily_overview e d t =
     (Inr (fst (complete_overview e d t c)), snd (complete_overview e d t c))"
  using assms by (simp add: generate_daily_overview_def Let_def case_prod_beta)

lemma generate_context_raises:
  assumes "existing_overview d t = None" and "get_context_for_date d t = Inl err"
  shows "generate_daily_overview e d t = (Inl err, d)"
  using assms by (simp add: generate_daily_overview_def)

lemma generate_log_length:
  "length (llm_log (snd (generate_daily_overview e d t))) \<le> length (llm_log d) + 1"
  by (simp add: generate_daily_overview_def Let_def case_prod_beta complete_overview_frame
        split: option.split sum.split)

lemma generate_diagnostics_anchor:
  assumes "existing_overview d t = None" and "get_context_for_date d t = Inr c"
    and "anchor_snapshot d t = Some s"
  shows "diagnostic_results (snd (generate_daily_overview e d t)) =
           diagnostic_results d @ compute_all_diagnostics e d s"
  using assms
  by (simp add: generate_daily_overview_def Let_def case_prod_beta complete_overview_frame
        split: sum.split)

lemma generate_diagnostics_unchanged:
  assumes "existing_overview d t \<noteq> None \<or> anchor_snapshot d t = None"
  shows "diagnostic_results (snd (generate_daily_overview e d t)) = diagnostic_results d"
  using assms
  by (auto simp add: generate_daily_overview_def Let_def case_prod_beta complete_overview_frame
        split: option.split sum.split)

lemma anchor_none:
  assumes "\<forall>s \<in> set (snapshots d). \<not> snapshot_date s \<le> t"
  shows "anchor_snapshot d t = None"
proof -
  have "filter (\<lambda>s. snapshot_date s = t) (snapshots d) = []"
    and "filter (\<lambda>s. snapshot_date s \<le> t) (snapshots d) = []"
    using assms by (auto simp add: filter_empty_conv)
  then show ?thesis
    by (simp add: anchor_snapshot_def order_by_desc_def)
qed

lemma context_no_changes:
  assumes "anchor_snapshot d t = Some s"
    and "previous_snapshot_of d s = None \<or>
         (\<exists>p. previous_snapshot_of d s = Some p \<and> \<not> 0 < spend p)"
  shows "bundle_entry (get_context_for_date d t) ''changes'' = Some (PDict [])"
  using assms
  by (auto simp add: get_context_for_date_def bundle_entry_def Let_def bind_err_simps)

lemma first_None: "first xs = None \<longleftrightarrow> xs = []"
  by (cases xs) simp_all

lemma complete_overview_row:
  assumes "existing_overview d t = None"
    and "bundle_entry (Inr (fst (complete_overview e d t ctx))) ''error'' = None"
  shows "\<exists>ov. request_overview e t ctx = Inr (ov, fst (complete_overview e d t ctx)) \<and>
              existing_overview (snd (complete_overview e d t ctx)) t = Some ov"
proof (cases "request_overview e t ctx")
  case (Inl err)
  with assms(2) show ?thesis
    by (simp add: complete_overview_failure bundle_entry_def)
next
  case (Inr p)
  obtain ov r where p: "p = (ov, r)" by (cases p)
  with Inr have "overview_date ov = t"
    by (auto simp add: request_overview_def bind_err_def split: sum.splits)
  with Inr p assms(1) show ?thesis
    by (simp add: complete_overview_success existing_overview_def first_None)
qed

lemma generate_row:
  assumes "existing_overview d t = None"
    and "fst (generate_daily_overview e d t) = Inr r"
    and "bundle_entry (Inr r) ''error'' = None"
  shows "\<exists>ov ctx. request_overview e t ctx = Inr (ov, r) \<and>
                  existing_overview (snd (generate_daily_overview e d t)) t = Some ov"
proof (cases "get_context_for_date d t")
  case (Inl err)
  with assms show ?thesis by (simp add: generate_context_raises)
next
  case (Inr c)
  show ?thesis
  proof (cases "anchor_snapshot d t")
    case None
    with assms Inr show ?thesis
      using complete_overview_row [of d t e c] by (auto simp add: generate_no_anchor)
  next
    case (Some s)
    let ?d1 = "d\<lparr>diagnostic_results := diagnostic_results d @ compute_all_diagnostics e d s\<rparr>"
    from get_context_frame_diagnostics [OF Inr]
    obtain ctx where ctx: "get_context_for_date ?d1 t = Inr ctx" by blast
    have "existing_overview ?d1 t = None"
      using assms(1) by simp
    then show ?thesis
      using assms Inr Some ctx complete_overview_row [of ?d1 t e ctx]
      by (auto simp add: generate_anchor)
  qed
qed

lemma request_overview_cached:
  assumes "request_overview e t ctx = Inr (ov, r)"
    and "list_fields_round_trip e r"
  shows "cached_overview e ov = Inr r"
  using assms
  by (auto simp add: request_overview_def cached_overview_def parse_field_def bind_err_def
        list_fields_round_trip_def bundle_entry_def split: sum.splits)

lemma generate_twice_same_result:
  assumes "existing_overview d t = None"
    and "fst (generate_daily_overview e d t) = Inr r"
    and "bundle_entry (Inr r) ''error'' = None"
    and "list_fields_round_trip e r"
  shows "fst (generate_daily_overview e (snd (generate_daily_overview e d t)) t) = Inr r"
proof -
  from generate_row [OF assms(1-3)] obtain ov ctx where
    req: "request_overview e t ctx = Inr (ov, r)" and
    row: "existing_overview (snd (generate_daily_overview e d t)) t = Some ov"
    by blast
  show ?thesis
    by (simp add: generate_cached [OF row] request_overview_cached [OF req assms(4)])
qed

lemma generate_failure:
  assumes "existing_overview d t = None" and "get_context_for_date d t = Inr c"
    and "\<forall>ctx. request_overview e t ctx = Inl err"
  shows "fst (generate_daily_overview e d t) =
           Inr (PDict [(''error'', PErr err), (''overview_date'', PDate t)]) \<and>
         daily_overviews (snd (generate_daily_overview e d t)) = daily_overviews d \<and>
         existing_overview (snd (generate_daily_overview e d t)) t = None \<and>
         length (llm_log (snd (generate_daily_overview e d t))) = length (llm_log d) + 1 \<and>
         (\<exists>c'. get_context_for_date (snd (generate_daily_overview e d t)) t = Inr c')"
proof (cases "anchor_snapshot d t")
  case None
  with assms show ?thesis
    by (simp add: generate_no_anchor complete_overview_failure existing_overview_def)
next
  case (Some s)
  let ?d1 = "d\<lparr>diagnostic_results := diagnostic_results d @ compute_all_diagnostics e d s\<rparr>"
  from get_context_frame_diagnostics [OF assms(2)]
  obtain ctx where ctx: "get_context_for_date ?d1 t = Inr ctx" by blast
  with assms Some show ?thesis
    by (simp add: generate_anchor complete_overview_failure existing_overview_def)
qed

lemma dict_get_not_dict:
  assumes "\<forall>kvs. v \<noteq> PDict kvs"
  shows "dict_get v k dflt = Inl AttributeError"
  using assms by (cases v) (simp_all add: dict_get_def)

lemma request_overview_parse_failure:
  assumes "chat_completion e t ctx = Inr reply"
    and "json_loads e (clean_json_response reply) = Inl err \<or>
         (\<exists>v. json_loads e (clean_json_response reply) = Inr v \<and> (\<forall>kvs. v \<noteq> PDict kvs) \<and>
              err = AttributeError)"
  shows "request_overview e t ctx = Inl err"
  using assms
  by (auto simp add: request_overview_def bind_err_simps dict_get_not_dict)

lemmas analyst_defs = generate_daily_overview_def get_context_for_date_def anchor_snapshot_def
  previous_snapshot_of_def existing_overview_def complete_overview_def request_overview_def
  cached_overview_def parse_field_def dict_get_def snapshot_dict_def diagnostic_dict_def
  events_health_dict_def changes_dict_def opt_num_def bundle_entry_def
  example_loads_def example_dumps_def ok_env_def bad_env_def persisted_db_def
  example_diagnostic_def

lemma leading_space_Nil: "leading_space ws [] = 0"
proof -
  have "find (\<lambda>w. w \<noteq> [] \<and> startswith [] w) ws = None"
    by (auto simp add: find_None_iff startswith_def)
  then show ?thesis by (simp add: leading_space_def)
qed

lemma lstrip_by_Nil: "lstrip_by ws [] = []"
  by (subst lstrip_by.simps) (simp add: leading_space_Nil)

lemma lstrip_by_step:
  "lstrip_by ws (c # s) =
     (if leading_space ws (c # s) = 0 then c # s
      else lstrip_by ws (drop (leading_space ws (c # s)) (c # s)))"
  by (rule lstrip_by.simps)

lemmas strip_eval = strip_def lstrip_by_Nil lstrip_by_step leading_space_def whitespace_def
  startswith_def endswith_def clean_json_response_def

lemma clean_examples:
  "clean_json_response ''```json{}```'' = ''{}''"
  "clean_json_response ''not json'' = ''not json''"
  "clean_json_response (CHR 0xC2 # CHR 0xA0 # ''{}'') = ''{}''"
  by (simp_all add: strip_eval)

lemma example_request_fails:
  "request_overview bad_env t ctx = Inl (JSONDecodeError ''not json'')"
  by (simp add: request_overview_def bad_env_def example_env_def bind_err_simps clean_examples
        example_loads_def)

lemma example_contexts:
  "\<exists>c. get_context_for_date (history_db 3) 3 = Inr c"
  "\<exists>c. get_context_for_date persisted_db 4 = Inr c"
  "\<exists>c. get_context_for_date (history_db 4) 4 = Inr c"
  by (simp_all add: analyst_defs ex_defs cat_defs upt_rec)

lemma example_anchors:
  shows anchor_h1: "anchor_snapshot (history_db 1) 1 = Some (example_snapshot 1 10 100)"
    and anchor_h3: "anchor_snapshot (history_db 3) 3 = Some (example_snapshot 3 10 100)"
    and anchor_h4: "anchor_snapshot (history_db 4) 4 = Some (example_snapshot 4 10 100)"
    and anchor_persisted: "anchor_snapshot persisted_db 4 = Some (example_snapshot 4 10 100)"
    and anchor_empty: "anchor_snapshot empty_db 1 = None"
    and existing_h3: "existing_overview (history_db 3) 3 = None"
    and existing_h4: "existing_overview (history_db 4) 4 = None"
    and existing_persisted: "existing_overview persisted_db 4 = None"
    and previous_h1: "previous_snapshot_of (history_db 1) (example_snapshot 1 10 100) = None"
  by (simp_all add: analyst_defs ex_defs upt_rec)

lemma example_computed:
  "map diagnostic_type (compute_all_diagnostics bad_env (history_db 4) (example_snapshot 4 10 100)) =
     [''fatigue'', ''saturation'', ''delivery_concentration'', ''auction_shifts'',
      ''tracking_degradation'']"
  "map diagnostic_type (compute_all_diagnostics bad_env persisted_db (example_snapshot 4 10 100)) =
     [''fatigue'', ''saturation'', ''delivery_concentration'', ''auction_shifts'',
      ''tracking_degradation'']"
  by (simp_all add: compute_defs cat_defs ex_defs bad_env_def persisted_db_def upt_rec)

lemma example_request_succeeds:
  "request_overview ok_env 3 ctx = Inr (example_overview, example_result)"
  by (simp add: request_overview_def ok_env_def example_env_def bind_err_simps clean_examples
        example_loads_def example_dumps_def dict_get_def example_overview_def example_result_def)

lemma example_cached:
  "cached_overview ok_env example_overview = Inr example_result"
  by (simp add: cached_overview_def parse_field_def ok_env_def example_env_def bind_err_simps
        example_loads_def example_overview_def example_result_def)

lemma example_first_run:
  "fst (generate_daily_overview ok_env (history_db 3) 3) = Inr example_result"
  "existing_overview (snd (generate_daily_overview ok_env (history_db 3) 3)) 3 =
     Some example_overview"
  "length (llm_log (snd (generate_daily_overview ok_env (history_db 3) 3))) = 1"
proof -
  let ?s = "example_snapshot 3 10 100"
  let ?d1 = "(history_db 3)\<lparr>diagnostic_results :=
               diagnostic_results (history_db 3) @
               compute_all_diagnostics ok_env (history_db 3) ?s\<rparr>"
  obtain c where c: "get_context_for_date (history_db 3) 3 = Inr c"
    using example_contexts(1) by blast
  obtain ctx where ctx: "get_context_for_date ?d1 3 = Inr ctx"
    using get_context_frame_diagnostics [OF c] by blast
  have run: "generate_daily_overview ok_env (history_db 3) 3 =
          (Inr example_result,
           ?d1\<lparr>llm_log := llm_log ?d1 @ [(3, ctx)],
                 daily_overviews := daily_overviews ?d1 @ [example_overview]\<rparr>)"
    using existing_h3 anchor_h3 c ctx
    by (simp add: generate_anchor complete_overview_success [OF example_request_succeeds])
  show "fst (generate_daily_overview ok_env (history_db 3) 3) = Inr example_result"
    by (simp add: run)
  show "existing_overview (snd (generate_daily_overview ok_env (history_db 3) 3)) 3 =
     Some example_overview"
    unfolding run by (simp add: existing_overview_def history_db_def example_overview_def)
  show "length (llm_log (snd (generate_daily_overview ok_env (history_db 3) 3))) = 1"
    unfolding run by (simp add: history_db_def)
qed

lemma example_round_trip: "list_fields_round_trip ok_env example_result"
  by (simp add: list_fields_round_trip_def bundle_entry_def example_result_def ok_env_def
        example_env_def example_loads_def example_dumps_def)

lemma generate_success:
  assumes "existing_overview d t = None" and "get_context_for_date d t = Inr c"
    and "\<forall>ctx. request_overview e t ctx = Inr (ov, r)"
    and "overview_date ov = t"
  shows "fst (generate_daily_overview e d t) = Inr r \<and>
         existing_overview (snd (generate_daily_overview e d t)) t = Some ov"
proof (cases "anchor_snapshot d t")
  case None
  with assms show ?thesis
    by (simp add: generate_no_anchor complete_overview_success existing_overview_def first_None)
next
  case (Some s)
  let ?d1 = "d\<lparr>diagnostic_results := diagnostic_results d @ compute_all_diagnostics e d s\<rparr>"
  from get_context_frame_diagnostics [OF assms(2)]
  obtain ctx where ctx: "get_context_for_date ?d1 t = Inr ctx" by blast
  with assms Some show ?thesis
    by (simp add: generate_anchor complete_overview_success existing_overview_def first_None)
qed

lemma request_overview_object:
  assumes "chat_completion e t ctx = Inr reply"
    and "json_loads e (clean_json_response reply) = Inr (PDict kvs)"
  shows "request_overview e t ctx =
     Inr (\<lparr> overview_date = t,
            summary = (value_or kvs ''summary'' (PStr [])),
            key_changes = PStr (json_dumps e
              (value_or kvs ''key_changes'' (PList []))),
            insights = PStr (json_dumps e
              (value_or kvs ''insights'' (PList []))),
            recommendations = PStr (json_dumps e
              (value_or kvs ''recommendations'' (PList []))) \<rparr>,
          PDict [(''overview_date'', PDate t),
                 (''summary'', (value_or kvs ''summary'' (PStr []))),
                 (''key_changes'',
                    (value_or kvs ''key_changes'' (PList []))),
                 (''insights'',
                    (value_or kvs ''insights'' (PList []))),
                 (''recommendations'',
                    (value_or kvs ''recommendations'' (PList [])))])"
  using assms by (simp add: request_overview_def bind_err_simps dict_get_def value_or_def)

lemma generate_diagnostics_kept:
  assumes "existing_overview d t \<noteq> None \<or> (\<exists>err. get_context_for_date d t = Inl err) \<or>
           anchor_snapshot d t = None"
  shows "diagnostic_results (snd (generate_daily_overview e d t)) = diagnostic_results d"
proof (cases "existing_overview d t")
  case None
  show ?thesis
  proof (cases "get_context_for_date d t")
    case (Inl err)
    with None show ?thesis by (simp add: generate_context_raises)
  next
    case (Inr c)
    with None assms have "anchor_snapshot d t = None" by simp
    then show ?thesis by (simp add: generate_diagnostics_unchanged)
  qed
next
  case (Some ov)
  then show ?thesis by (simp add: generate_diagnostics_unchanged)
qed

lemma example_replies:
  "\<forall>ctx. chat_completion bad_env 3 ctx = Inr ''not json''"
  "\<forall>ctx. chat_completion ok_env 3 ctx = Inr ''```json{}```''"
  "json_loads bad_env (clean_json_response ''not json'') = Inl (JSONDecodeError ''not json'')"
  "json_loads ok_env (clean_json_response ''```json{}```'') = Inr (PDict [])"
  by (simp_all add: bad_env_def ok_env_def example_env_def clean_examples example_loads_def)

lemma example_more_stores:
  shows existing_cached: "existing_overview cached_db 3 \<noteq> None"
    and context_raising: "get_context_for_date raising_db 2 = Inl TypeError"
    and existing_raising: "existing_overview raising_db 2 = None"
    and anchor_raising: "anchor_snapshot raising_db 2 \<noteq> None"
  by (simp_all add: analyst_defs ex_defs cat_defs cached_db_def raising_db_def
        example_overview_def bind_err_simps upt_rec)

subsection \<open>The cached overview\<close>

text \<open>
  C1. When an overview row exists for the target date, \<open>generate_daily_overview\<close>
  returns that row, its JSON-encoded list fields parsed, and leaves the store and the log
  of collaborator calls as they were. So when a row exists after a first call, a second
  call for the same date returns that row and changes nothing, and the two calls together
  invoke the collaborator at most once. A first call that returns an overview without an
  \<open>error\<close> entry leaves such a row, and where \<open>json.loads\<close> inverts \<open>json.dumps\<close> on
  its three list fields the second call returns the same dictionary.
\<close>

theorem C1_overview_idempotent:
  "(\<forall>ov. existing_overview d t = Some ov \<longrightarrow>
      generate_daily_overview e d t = (cached_overview e ov, d)) \<and>
   (\<forall>ov. existing_overview (snd (generate_daily_overview e d t)) t = Some ov \<longrightarrow>
      generate_daily_overview e (snd (generate_daily_overview e d t)) t =
        (cached_overview e ov, snd (generate_daily_overview e d t)) \<and>
      length (llm_log (snd (generate_daily_overview e (snd (generate_daily_overview e d t)) t)))
        \<le> length (llm_log d) + 1) \<and>
   (\<forall>r. existing_overview d t = None \<and> fst (generate_daily_overview e d t) = Inr r \<and>
      bundle_entry (Inr r) ''error'' = None \<longrightarrow>
      existing_overview (snd (generate_daily_overview e d t)) t \<noteq> None \<and>
      (list_fields_round_trip e r \<longrightarrow>
         fst (generate_daily_overview e (snd (generate_daily_overview e d t)) t) = Inr r))"
proof (intro conjI allI impI)
  fix ov assume "existing_overview d t = Some ov"
  then show "generate_daily_overview e d t = (cached_overview e ov, d)"
    by (rule generate_cached)
next
  fix ov assume "existing_overview (snd (generate_daily_overview e d t)) t = Some ov"
  then show "generate_daily_overview e (snd (generate_daily_overview e d t)) t =
        (cached_overview e ov, snd (generate_daily_overview e d t))"
    by (rule generate_cached)
next
  fix ov assume row: "existing_overview (snd (generate_daily_overview e d t)) t = Some ov"
  show "length (llm_log (snd (generate_daily_overview e (snd (generate_daily_overview e d t)) t)))
        \<le> length (llm_log d) + 1"
    using generate_log_length [of e d t] by (simp add: generate_cached [OF row])
next
  fix r
  assume "existing_overview d t = None \<and> fst (generate_daily_overview e d t) = Inr r \<and>
      bundle_entry (Inr r) ''error'' = None"
  then show "existing_overview (snd (generate_daily_overview e d t)) t \<noteq> None"
    using generate_row [of d t e r] by auto
next
  fix r
  assume "existing_overview d t = None \<and> fst (generate_daily_overview e d t) = Inr r \<and>
      bundle_entry (Inr r) ''error'' = None"
    and "list_fields_round_trip e r"
  then show "fst (generate_daily_overview e (snd (generate_daily_overview e d t)) t) = Inr r"
    using generate_twice_same_result [of d t e r] by blast
qed

theorem C1_overview_idempotent_witness:
  "existing_overview (history_db 3) 3 = None \<and>
   fst (generate_daily_overview ok_env (history_db 3) 3) = Inr example_result \<and>
   bundle_entry (Inr example_result) ''error'' = None \<and>
   list_fields_round_trip ok_env example_result \<and>
   existing_overview (snd (generate_daily_overview ok_env (history_db 3) 3)) 3 =
     Some example_overview \<and>
   generate_daily_overview ok_env (snd (generate_daily_overview ok_env (history_db 3) 3)) 3 =
     (Inr example_result, snd (generate_daily_overview ok_env (history_db 3) 3)) \<and>
   length (llm_log (snd (generate_daily_overview ok_env
      (snd (generate_daily_overview ok_env (history_db 3) 3)) 3))) = 1"
proof -
  note inst = C1_overview_idempotent [of "history_db 3" 3 ok_env]
  have no_error: "bundle_entry (Inr example_result) ''error'' = None"
    by (simp add: bundle_entry_def example_result_def)
  have second: "generate_daily_overview ok_env
       (snd (generate_daily_overview ok_env (history_db 3) 3)) 3 =
     (cached_overview ok_env example_overview,
      snd (generate_daily_overview ok_env (history_db 3) 3))"
    using inst example_first_run(2) by blast
  have same: "fst (generate_daily_overview ok_env
       (snd (generate_daily_overview ok_env (history_db 3) 3)) 3) = Inr example_result"
    using inst existing_h3 example_first_run(1) no_error example_round_trip by blast
  show ?thesis
    using second same existing_h3 example_first_run no_error example_round_trip
    by simp
qed

subsection \<open>Diagnostics during overview generation\<close>

text \<open>
  C2, as amended. Overview generation recomputes diagnostics whatever is stored:
  whenever no overview row is cached for the target date, context assembly returns and
  an anchor snapshot exists, the results of \<open>compute_all_diagnostics\<close> on the anchor
  snapshot (none when every category skips) are appended to the stored diagnostics,
  whether or not rows for the anchor's date are already stored. In every other case, that
  is when the overview is cached, when context assembly raises, or when there is no
  anchor snapshot, the stored diagnostics are left as they were.
\<close>

theorem C2_diagnostics_recomputed:
  "(\<forall>s c. existing_overview d t = None \<and> get_context_for_date d t = Inr c \<and>
      anchor_snapshot d t = Some s \<longrightarrow>
      diagnostic_results (snd (generate_daily_overview e d t)) =
        diagnostic_results d @ compute_all_diagnostics e d s) \<and>
   (existing_overview d t \<noteq> None \<or> (\<exists>err. get_context_for_date d t = Inl err) \<or>
    anchor_snapshot d t = None \<longrightarrow>
      diagnostic_results (snd (generate_daily_overview e d t)) = diagnostic_results d)"
  using generate_diagnostics_anchor generate_diagnostics_kept by blast

theorem C2_diagnostics_recomputed_witness:
  "existing_overview persisted_db 4 = None \<and>
   anchor_snapshot persisted_db 4 = Some (example_snapshot 4 10 100) \<and>
   diagnostic_results (snd (generate_daily_overview bad_env persisted_db 4)) =
     diagnostic_results persisted_db @
     compute_all_diagnostics bad_env persisted_db (example_snapshot 4 10 100) \<and>
   anchor_snapshot empty_db 1 = None \<and>
   diagnostic_results (snd (generate_daily_overview bad_env empty_db 1)) =
     diagnostic_results empty_db \<and>
   get_context_for_date raising_db 2 = Inl TypeError \<and>
   diagnostic_results (snd (generate_daily_overview bad_env raising_db 2)) =
     diagnostic_results raising_db \<and>
   diagnostic_results (snd (generate_daily_overview bad_env cached_db 3)) =
     diagnostic_results cached_db"
proof -
  obtain c where c: "get_context_for_date persisted_db 4 = Inr c"
    using example_contexts(2) by blast
  show ?thesis
    using c anchor_persisted existing_persisted anchor_empty existing_cached context_raising
      C2_diagnostics_recomputed [of persisted_db 4 bad_env]
      C2_diagnostics_recomputed [of empty_db 1 bad_env]
      C2_diagnostics_recomputed [of raising_db 2 bad_env]
      C2_diagnostics_recomputed [of cached_db 3 bad_env]
    by blast
qed

text \<open>
  The claim as first stated fails: on a store that already holds a diagnostic row for
  the anchor's date, overview generation stores five more.
\<close>

theorem C2_counterexample:
  "existing_overview persisted_db 4 = None \<and>
   anchor_snapshot persisted_db 4 = Some (example_snapshot 4 10 100) \<and>
   diagnostic_results persisted_db = [example_diagnostic 4] \<and>
   dr_snapshot_date (example_diagnostic 4) = snapshot_date (example_snapshot 4 10 100) \<and>
   length (diagnostic_results (snd (generate_daily_overview bad_env persisted_db 4))) = 6"
proof -
  obtain c where c: "get_context_for_date persisted_db 4 = Inr c"
    using example_contexts(2) by blast
  have "length (compute_all_diagnostics bad_env persisted_db (example_snapshot 4 10 100)) = 5"
    using example_computed(2) [THEN arg_cong, of length] by simp
  then have "length (diagnostic_results (snd (generate_daily_overview bad_env persisted_db 4))) = 6"
    using generate_diagnostics_anchor [OF existing_persisted c anchor_persisted, of bad_env]
    by (simp add: persisted_db_def)
  then show ?thesis
    using anchor_persisted existing_persisted
    by (simp add: persisted_db_def example_diagnostic_def example_snapshot_def)
qed

subsection \<open>Parse failure\<close>

text \<open>
  C4, as amended. With no cached overview and a context that assembles: when
  \<open>json.loads\<close> raises on the cleaned completion text, or the parsed value is no
  dictionary, the result is the dictionary of the error and the target date, no overview
  row is saved, a later call finds no cached overview, and that later call invokes the
  collaborator again. A completion that parses to a dictionary is no failure, whatever
  its other keys, when its summary is a string or is missing: each missing key takes its
  default (the empty string, the empty list), the row is saved and the overview is
  returned.
\<close>

theorem C4_parse_failure:
  assumes "existing_overview d t = None"
    and "get_context_for_date d t = Inr c"
    and "\<forall>ctx. chat_completion e t ctx = Inr reply"
  shows "(\<forall>err. json_loads e (clean_json_response reply) = Inl err \<or>
            (\<exists>v. json_loads e (clean_json_response reply) = Inr v \<and>
                 (\<forall>kvs. v \<noteq> PDict kvs) \<and> err = AttributeError) \<longrightarrow>
            fst (generate_daily_overview e d t) =
              Inr (PDict [(''error'', PErr err), (''overview_date'', PDate t)]) \<and>
            daily_overviews (snd (generate_daily_overview e d t)) = daily_overviews d \<and>
            existing_overview (snd (generate_daily_overview e d t)) t = None \<and>
            length (llm_log (snd (generate_daily_overview e
               (snd (generate_daily_overview e d t)) t))) = length (llm_log d) + 2) \<and>
         (\<forall>kvs sm. json_loads e (clean_json_response reply) = Inr (PDict kvs) \<and>
            value_or kvs ''summary'' (PStr []) = PStr sm \<longrightarrow>
            fst (generate_daily_overview e d t) =
              Inr (PDict
                [(''overview_date'', PDate t),
                 (''summary'', PStr sm),
                 (''key_changes'', value_or kvs ''key_changes'' (PList [])),
                 (''insights'', value_or kvs ''insights'' (PList [])),
                 (''recommendations'', value_or kvs ''recommendations'' (PList []))]) \<and>
            existing_overview (snd (generate_daily_overview e d t)) t =
              Some \<lparr> overview_date = t,
                     summary = PStr sm,
                     key_changes =
                       PStr (json_dumps e (value_or kvs ''key_changes'' (PList []))),
                     insights =
                       PStr (json_dumps e (value_or kvs ''insights'' (PList []))),
                     recommendations =
                       PStr (json_dumps e (value_or kvs ''recommendations'' (PList []))) \<rparr>)"
proof (intro conjI; intro allI impI)
  fix err
  assume parse: "json_loads e (clean_json_response reply) = Inl err \<or>
            (\<exists>v. json_loads e (clean_json_response reply) = Inr v \<and>
                 (\<forall>kvs. v \<noteq> PDict kvs) \<and> err = AttributeError)"
  have req: "\<forall>ctx. request_overview e t ctx = Inl err"
    using assms(3) parse request_overview_parse_failure by blast
  note first = generate_failure [OF assms(1,2) req]
  then obtain c' where
    c': "get_context_for_date (snd (generate_daily_overview e d t)) t = Inr c'"
    by blast
  from first have ex: "existing_overview (snd (generate_daily_overview e d t)) t = None"
    by blast
  from generate_failure [OF ex c' req] first
  show "fst (generate_daily_overview e d t) =
              Inr (PDict [(''error'', PErr err), (''overview_date'', PDate t)]) \<and>
            daily_overviews (snd (generate_daily_overview e d t)) = daily_overviews d \<and>
            existing_overview (snd (generate_daily_overview e d t)) t = None \<and>
            length (llm_log (snd (generate_daily_overview e
               (snd (generate_daily_overview e d t)) t))) = length (llm_log d) + 2"
    by simp
next
  fix kvs sm
  assume obj: "json_loads e (clean_json_response reply) = Inr (PDict kvs) \<and>
            value_or kvs ''summary'' (PStr []) = PStr sm"
  let ?ov = "\<lparr> overview_date = t,
                summary = PStr sm,
                key_changes = PStr (json_dumps e (value_or kvs ''key_changes'' (PList []))),
                insights = PStr (json_dumps e (value_or kvs ''insights'' (PList []))),
                recommendations =
                  PStr (json_dumps e (value_or kvs ''recommendations'' (PList []))) \<rparr>"
  let ?r = "PDict
                [(''overview_date'', PDate t),
                 (''summary'', PStr sm),
                 (''key_changes'', value_or kvs ''key_changes'' (PList [])),
                 (''insights'', value_or kvs ''insights'' (PList [])),
                 (''recommendations'', value_or kvs ''recommendations'' (PList []))]"
  have req: "\<forall>ctx. request_overview e t ctx = Inr (?ov, ?r)"
    using assms(3) obj request_overview_object [of e t _ reply kvs] by simp
  have "overview_date ?ov = t" by simp
  from generate_success [OF assms(1,2) req this]
  show "fst (generate_daily_overview e d t) = Inr ?r \<and>
        existing_overview (snd (generate_daily_overview e d t)) t = Some ?ov"
    .
qed

theorem C4_parse_failure_witness:
  "fst (generate_daily_overview bad_env (history_db 3) 3) =
     Inr (PDict [(''error'', PErr (JSONDecodeError ''not json'')), (''overview_date'', PDate 3)]) \<and>
   daily_overviews (snd (generate_daily_overview bad_env (history_db 3) 3)) = [] \<and>
   existing_overview (snd (generate_daily_overview bad_env (history_db 3) 3)) 3 = None \<and>
   length (llm_log (snd (generate_daily_overview bad_env
      (snd (generate_daily_overview bad_env (history_db 3) 3)) 3))) = 2 \<and>
   fst (generate_daily_overview ok_env (history_db 3) 3) = Inr example_result \<and>
   existing_overview (snd (generate_daily_overview ok_env (history_db 3) 3)) 3 =
     Some example_overview"
proof -
  obtain c where c: "get_context_for_date (history_db 3) 3 = Inr c"
    using example_contexts(1) by blast
  have failure:
    "fst (generate_daily_overview bad_env (history_db 3) 3) =
       Inr (PDict [(''error'', PErr (JSONDecodeError ''not json'')), (''overview_date'', PDate 3)]) \<and>
     daily_overviews (snd (generate_daily_overview bad_env (history_db 3) 3)) =
       daily_overviews (history_db 3) \<and>
     existing_overview (snd (generate_daily_overview bad_env (history_db 3) 3)) 3 = None \<and>
     length (llm_log (snd (generate_daily_overview bad_env
        (snd (generate_daily_overview bad_env (history_db 3) 3)) 3))) =
       length (llm_log (history_db 3)) + 2"
    using C4_parse_failure [OF existing_h3 c example_replies(1)] example_replies(3) by blast
  have no_summary: "value_or [] ''summary'' (PStr []) = PStr []"
    by (simp add: value_or_def)
  have saved:
    "fst (generate_daily_overview ok_env (history_db 3) 3) =
       Inr (PDict
         [(''overview_date'', PDate 3),
          (''summary'', PStr []),
          (''key_changes'', (value_or [] ''key_changes'' (PList []))),
          (''insights'', (value_or [] ''insights'' (PList []))),
          (''recommendations'', (value_or [] ''recommendations'' (PList [])))]) \<and>
     existing_overview (snd (generate_daily_overview ok_env (history_db 3) 3)) 3 =
       Some \<lparr> overview_date = 3,
              summary = PStr [],
              key_changes = PStr (json_dumps ok_env (value_or [] ''key_changes'' (PList []))),
              insights = PStr (json_dumps ok_env (value_or [] ''insights'' (PList []))),
              recommendations =
                PStr (json_dumps ok_env (value_or [] ''recommendations'' (PList []))) \<rparr>"
    using C4_parse_failure [OF existing_h3 c example_replies(2)] example_replies(4) no_summary
    by blast
  from failure saved show ?thesis
    by (simp add: history_db_def value_or_def example_result_def example_overview_def
          ok_env_def example_env_def example_dumps_def)
qed

text \<open>
  The claim as first stated fails: the completion \<open>{}\<close> has none of the four keys of
  the required shape, and it is saved, with the defaults, as the overview of the day.
\<close>

theorem C4_counterexample:
  "existing_overview (history_db 3) 3 = None \<and>
   json_loads ok_env (clean_json_response ''```json{}```'') = Inr (PDict []) \<and>
   fst (generate_daily_overview ok_env (history_db 3) 3) = Inr example_result \<and>
   bundle_entry (fst (generate_daily_overview ok_env (history_db 3) 3)) ''error'' = None \<and>
   existing_overview (snd (generate_daily_overview ok_env (history_db 3) 3)) 3 =
     Some example_overview"
  using existing_h3 example_replies(4) example_first_run
  by (simp add: bundle_entry_def example_result_def)

subsection \<open>The context bundle\<close>

text \<open>
  C5, as amended. On a store with no snapshot at or before the target date
  \<open>get_context_for_date\<close> returns the empty dictionary. When the anchor snapshot has no
  previous snapshot, or the previous snapshot's spend is not positive, the bundle keeps
  its \<open>changes\<close> entry, and the entry is the empty dictionary.
\<close>

theorem C5_context:
  "((\<forall>s \<in> set (snapshots d). \<not> snapshot_date s \<le> t) \<longrightarrow>
      get_context_for_date d t = Inr (PDict [])) \<and>
   (\<forall>s. anchor_snapshot d t = Some s \<and>
        (previous_snapshot_of d s = None \<or>
         (\<exists>p. previous_snapshot_of d s = Some p \<and> \<not> 0 < spend p)) \<longrightarrow>
        bundle_entry (get_context_for_date d t) ''changes'' = Some (PDict []))"
  using anchor_none [of d t] context_no_changes [of d t]
  by (auto simp add: get_context_for_date_def)

theorem C5_context_witness:
  "get_context_for_date empty_db 1 = Inr (PDict []) \<and>
   get_context_for_date (history_db 1) 0 = Inr (PDict []) \<and>
   bundle_entry (get_context_for_date (history_db 1) 1) ''changes'' = Some (PDict [])"
proof -
  have h1: "\<forall>s \<in> set (snapshots empty_db). \<not> snapshot_date s \<le> 1"
    by (simp add: empty_db_def)
  have h2: "\<forall>s \<in> set (snapshots (history_db 1)). \<not> snapshot_date s \<le> 0"
    by (simp add: ex_defs)
  show ?thesis
    using h1 h2 anchor_h1 previous_h1 C5_context [of empty_db 1] C5_context [of "history_db 1" 0]
      C5_context [of "history_db 1" 1]
    by blast
qed

text \<open>
  The claim as first stated fails: on a store with a single snapshot the bundle has a
  \<open>changes\<close> entry, the empty dictionary.
\<close>

theorem C5_counterexample:
  "anchor_snapshot (history_db 1) 1 = Some (example_snapshot 1 10 100) \<and>
   previous_snapshot_of (history_db 1) (example_snapshot 1 10 100) = None \<and>
   bundle_entry (get_context_for_date (history_db 1) 1) ''changes'' = Some (PDict [])"
  by (simp add: analyst_defs ex_defs cat_defs upt_rec)

subsection \<open>Diagnostics committed before the collaborator fails\<close>

text \<open>
  C10. With no cached overview, a context that assembles and an anchor snapshot, when
  the collaborator call or the parse fails: the stored diagnostics are the former ones
  followed by the newly computed ones, the overview rows are unchanged, the result is the
  error dictionary, and the context the collaborator was invoked with was assembled from
  the store that already held the new rows. So whenever at least one diagnostic was
  computed, the stored diagnostics differ from those before the attempt.
\<close>

theorem C10_diagnostics_survive_failure:
  assumes "existing_overview d t = None"
    and "get_context_for_date d t = Inr c"
    and "anchor_snapshot d t = Some s"
    and "\<forall>ctx. request_overview e t ctx = Inl err"
  shows "diagnostic_results (snd (generate_daily_overview e d t)) =
           diagnostic_results d @ compute_all_diagnostics e d s \<and>
         daily_overviews (snd (generate_daily_overview e d t)) = daily_overviews d \<and>
         fst (generate_daily_overview e d t) =
           Inr (PDict [(''error'', PErr err), (''overview_date'', PDate t)]) \<and>
         (\<exists>ctx. get_context_for_date
                  (d\<lparr>diagnostic_results :=
                       diagnostic_results d @ compute_all_diagnostics e d s\<rparr>) t = Inr ctx \<and>
                llm_log (snd (generate_daily_overview e d t)) = llm_log d @ [(t, ctx)]) \<and>
         (compute_all_diagnostics e d s \<noteq> [] \<longrightarrow>
            diagnostic_results (snd (generate_daily_overview e d t)) \<noteq> diagnostic_results d)"
proof -
  let ?d1 = "d\<lparr>diagnostic_results := diagnostic_results d @ compute_all_diagnostics e d s\<rparr>"
  from get_context_frame_diagnostics [OF assms(2)]
  obtain ctx where ctx: "get_context_for_date ?d1 t = Inr ctx" by blast
  have "generate_daily_overview e d t =
          (Inr (PDict [(''error'', PErr err), (''overview_date'', PDate t)]),
           ?d1\<lparr>llm_log := llm_log ?d1 @ [(t, ctx)]\<rparr>)"
    using assms ctx by (simp add: generate_anchor complete_overview_failure)
  with ctx show ?thesis by simp
qed

theorem C10_diagnostics_survive_failure_witness:
  "map diagnostic_type (diagnostic_results (snd (generate_daily_overview bad_env (history_db 4) 4))) =
     [''fatigue'', ''saturation'', ''delivery_concentration'', ''auction_shifts'',
      ''tracking_degradation''] \<and>
   diagnostic_results (history_db 4) = [] \<and>
   diagnostic_results (snd (generate_daily_overview bad_env (history_db 4) 4))
     \<noteq> diagnostic_results (history_db 4) \<and>
   daily_overviews (snd (generate_daily_overview bad_env (history_db 4) 4)) = [] \<and>
   fst (generate_daily_overview bad_env (history_db 4) 4) =
     Inr (PDict [(''error'', PErr (JSONDecodeError ''not json'')), (''overview_date'', PDate 4)])"
proof -
  obtain c where c: "get_context_for_date (history_db 4) 4 = Inr c"
    using example_contexts(3) by blast
  have req: "\<forall>ctx. request_overview bad_env 4 ctx = Inl (JSONDecodeError ''not json'')"
    by (simp add: example_request_fails)
  have "compute_all_diagnostics bad_env (history_db 4) (example_snapshot 4 10 100) \<noteq> []"
    using example_computed(1) by auto
  then show ?thesis
    using C10_diagnostics_survive_failure [OF existing_h4 c anchor_h4 req]
      example_computed(1)
    by (simp add: history_db_def)
qed

end
